theory Spec2Isabelle
  imports Main
begin

section \<open>JavaScript strings\<close>

text \<open>
  The parser of \<^verbatim>\<open>src/parser.js\<close> works on JavaScript strings. They are modelled as
  \<^typ>\<open>string\<close>; the only characters the parser compares with are ASCII. An index that
  JavaScript reports as \<^verbatim>\<open>-1\<close> is the integer \<open>-1\<close> here as well, and
  \<^verbatim>\<open>slice\<close> clamps its arguments as \<^verbatim>\<open>String.prototype.slice\<close> does.
\<close>

primrec indexOf :: "string \<Rightarrow> char \<Rightarrow> int" where
  "indexOf [] c = -1"
| "indexOf (x # xs) c =
     (if x = c then 0 else (let r = indexOf xs c in if r = -1 then -1 else r + 1))"

definition lastIndexOf :: "string \<Rightarrow> char \<Rightarrow> int" where
  "lastIndexOf s c =
     (let r = indexOf (rev s) c in if r = -1 then -1 else int (length s) - 1 - r)"

definition startsWith :: "string \<Rightarrow> char \<Rightarrow> bool" where
  "startsWith s c = (case s of [] \<Rightarrow> False | x # _ \<Rightarrow> x = c)"

definition includesChar :: "string \<Rightarrow> char \<Rightarrow> bool" where
  "includesChar s c = (c \<in> set s)"

definition sliceIndex :: "nat \<Rightarrow> int \<Rightarrow> nat" where
  "sliceIndex len i = (if i < 0 then nat (max (int len + i) 0) else min (nat i) len)"

definition slice :: "string \<Rightarrow> int \<Rightarrow> int \<Rightarrow> string" where
  "slice s a b =
     (let first = sliceIndex (length s) a; final = sliceIndex (length s) b
      in take (final - first) (drop first s))"

definition sliceFrom :: "string \<Rightarrow> int \<Rightarrow> string" where
  "sliceFrom s a = drop (sliceIndex (length s) a) s"

text \<open>
  \<^verbatim>\<open>trim\<close> removes white space at both ends. Of JavaScript's white space and line
  terminators, these are the ones a \<^typ>\<open>char\<close> can hold: tab, line feed, vertical tab,
  form feed, carriage return, space and the no-break space.
\<close>

definition isWhiteSpace :: "char \<Rightarrow> bool" where
  "isWhiteSpace c = (of_char c \<in> {9, 10, 11, 12, 13, 32, 160 :: nat})"

definition trim :: "string \<Rightarrow> string" where
  "trim s = rev (dropWhile isWhiteSpace (rev (dropWhile isWhiteSpace s)))"

section \<open>Tokens and syntax-tree nodes\<close>

text \<open>
  A token of the tokenizer. The fields \<^verbatim>\<open>pos\<close> and \<^verbatim>\<open>original\<close> of tokens and
  nodes are copied around for diagnostics only and no branch of the parser reads them;
  they are left out. A field that a token does not carry is the empty string or 0.
\<close>

datatype token_type =
  TNumber | TString | TIdentifier | TSymbol | TPlaceHolder | TSemicolonSequence | TEnd

record token =
  ttype :: token_type
  tvalue :: string
  tkind :: string
  tplace :: nat
  tcount :: nat

text \<open>What the system-symbol lookup returns, as far as the parser reads it.\<close>

datatype sysinfo = SysInfo (sys_type: string) (sys_precedence: "int option")
  (sys_associativity: "string option") (sys_operatorType: "string option")

text \<open>
  A parameter \<^verbatim>\<open>{name, defaultValue}\<close> and a parameter specification
  \<^verbatim>\<open>{positional, keyword, conditionals, metadata}\<close>. \<open>None\<close> is JavaScript's
  \<^verbatim>\<open>null\<close> or \<^verbatim>\<open>undefined\<close>; the specification built for \<^verbatim>\<open>:->\<close> with a left
  side that is no call has no \<^verbatim>\<open>conditionals\<close> field at all. An object used as a
  dictionary is an association list in insertion order. The name of a parameter is
  a string where the parser reads it from a token; where it is computed as
  \<^verbatim>\<open>x.name || x.value\<close> from a node \<open>x\<close> it can also be missing (\<open>NoName\<close>) or, for
  a node whose \<^verbatim>\<open>name\<close> field holds a node, that node (\<open>NameNode\<close>).
\<close>

datatype 'n pname = NoName | Name string | NameNode 'n

datatype 'n param = Param (pname: "'n pname") (defaultValue: "'n option")

datatype 'n params = Params (positional: "'n param list") (keyword: "'n param list")
  (conditionals: "'n list option") (metadata: "(string \<times> 'n) list")

text \<open>
  The nodes, one constructor for each \<^verbatim>\<open>type\<close> that \<^verbatim>\<open>createNode\<close> receives. The
  source uses the type \<^verbatim>\<open>Map\<close> twice: for the brace container (\<open>Map\<close> here) and for
  the node of \<^verbatim>\<open>|>>\<close> (\<open>MapPipe\<close> here). \<open>FunctionCall\<close> carries the positional
  and the keyword arguments, \<open>Derivative\<close> and \<open>Integral\<close> carry function, order,
  variables, evaluation and operations; the constant metadata of \<open>Integral\<close> is left out.
\<close>

datatype node =
    Number string
  | String string string
  | UserIdentifier string
  | SystemIdentifier string sysinfo
  | PlaceHolder nat
  | NULL
  | UnaryOperation string node
  | BinaryOperation string node node
  | Grouping node
  | Tuple "node list"
  | Array "node list"
  | Set "node list"
  | Map "node list"
  | System "node list"
  | Matrix "node list list"
  | Tensor "(node list \<times> nat) list" nat
  | WithMetadata node "(string \<times> node) list"
  | CodeBlock "node list"
  | FunctionCall node "node list" "(string \<times> node) list"
  | FunctionDefinition node "node params" node
  | FunctionLambda "node params" node
  | PatternMatchingFunction node "node params" "(node params \<times> node) list"
      "(string \<times> node) list"
  | ParameterList "node params"
  | Pipe node node
  | ExplicitPipe node node
  | MapPipe node node
  | Filter node node
  | Reduce node node
  | PropertyAccess node node
  | Derivative node nat "string list option" "node list option" "node list option"
  | Integral node nat "string list option" "node list option" "node list option"
  | EmbeddedLanguage "string option" "string option" string
  | Statement node
  | Comment string string

text \<open>
  Every \<^verbatim>\<open>this.error(...)\<close> of the source is a constructor. \<open>OutOfFuel\<close> is no error
  of the source: it is the answer of the model when the recursion bound given to it is
  too small.
\<close>

datatype error =
    UnexpectedSymbol string
  | UnexpectedToken token_type
  | ExpectedClosingParenInCall
  | ExpectedClosingBracket
  | ExpectedClosingParen
  | ConsecutiveCommas
  | CannotMixMatrixMetadataNested
  | MetadataKeyNotIdentifier
  | CannotMixArrayMetadata
  | CannotMixMatrixMetadata
  | PatternMatchingInBraces
  | ExpectedClosingBrace
  | SystemWithoutSemicolons
  | CannotMixEquations
  | MapOnlyPairs
  | SystemOnlyEquations
  | ExpectedClosingCodeBlock
  | ExpectedClosingBracketAfterVariables
  | ExpectedFunctionName
  | ExpectedVariableName
  | ExpectedCommaOrBracket
  | ExpectedParameterName
  | KeywordOnlyNeedsDefault
  | ExpectedKeywordIdentifier
  | UnmatchedClosingParen
  | UnmatchedOpeningParen
  | InvalidHeaderFormat
  | MultipleGroups
  | OutOfFuel

section \<open>The embedded-language header\<close>

text \<open>
  The loop that looks for the parenthesis closing the one at index \<open>i\<close>; the source
  has it twice, over the content and over the header. The first argument is the rest of
  the string from index \<open>i\<close> on; the result is \<^verbatim>\<open>parenEnd\<close>.
\<close>

fun matchParen :: "string \<Rightarrow> int \<Rightarrow> int \<Rightarrow> int" where
  "matchParen [] i parenCount = -1"
| "matchParen (ch # rest) i parenCount =
     (if ch = CHR ''('' then matchParen rest (i + 1) (parenCount + 1)
      else if ch = CHR '')'' then
        (if parenCount - 1 = 0 then i else matchParen rest (i + 1) (parenCount - 1))
      else matchParen rest (i + 1) parenCount)"

definition findParenEnd :: "string \<Rightarrow> int \<Rightarrow> int" where
  "findParenEnd s parenStart = matchParen (sliceFrom s parenStart) parenStart 0"

text \<open>\<^verbatim>\<open>parseEmbeddedLanguage\<close>, the search for the colon that ends the header.\<close>

definition headerColonIndex :: "string \<Rightarrow> int" where
  "headerColonIndex content =
     (let parenStart = indexOf content CHR ''('';
          colonIndex =
            (if parenStart \<noteq> -1 then
               (let parenEnd = findParenEnd content parenStart in
                if parenEnd \<noteq> -1 then
                  (let colonAfterParens = indexOf (sliceFrom content (parenEnd + 1)) CHR '':''
                   in if colonAfterParens \<noteq> -1 then parenEnd + 1 + colonAfterParens else -1)
                else -1)
             else -1)
      in if colonIndex = -1 then indexOf content CHR '':'' else colonIndex)"

definition splitHeaderBody :: "string \<Rightarrow> string \<times> string" where
  "splitHeaderBody content =
     (let colonIndex = headerColonIndex content
      in (trim (slice content 0 colonIndex), sliceFrom content (colonIndex + 1)))"

text \<open>\<^verbatim>\<open>parseEmbeddedLanguage\<close>, the header: language and context, or an error.\<close>

definition parseHeader :: "string \<Rightarrow> error + string \<times> string option" where
  "parseHeader header =
     (let headerParenStart = indexOf header CHR ''('';
          headerParenEnd = lastIndexOf header CHR '')''
      in if headerParenEnd \<noteq> -1 \<and> headerParenStart = -1 then Inl UnmatchedClosingParen
         else if headerParenStart \<noteq> -1 then
           (let parenEnd = findParenEnd header headerParenStart
            in if parenEnd = -1 then Inl UnmatchedOpeningParen
               else if parenEnd \<noteq> int (length header) - 1 then Inl InvalidHeaderFormat
               else if includesChar (sliceFrom header (parenEnd + 1)) CHR ''('' then Inl MultipleGroups
               else Inr (trim (slice header 0 headerParenStart),
                         Some (trim (slice header (headerParenStart + 1) parenEnd))))
         else Inr (header, None))"

definition parseEmbeddedLanguage :: "string \<Rightarrow> error + node" where
  "parseEmbeddedLanguage content =
     (if startsWith content CHR '':'' \<or> indexOf content CHR '':'' = -1 then
        Inr (EmbeddedLanguage (Some ''RiX-String'') None
               (if startsWith content CHR '':'' then sliceFrom content 1 else content))
      else
        (case splitHeaderBody content of (header, body) \<Rightarrow>
           (case parseHeader header of
              Inl e \<Rightarrow> Inl e
            | Inr (language, context) \<Rightarrow>
                Inr (EmbeddedLanguage (if language = [] then None else Some language)
                       context body))))"

text \<open>
  The header colon as the specification words it: a parenthesis counts only when the
  content begins with it.
\<close>

definition spec_headerColonIndex :: "string \<Rightarrow> int" where
  "spec_headerColonIndex content =
     (if startsWith content CHR ''('' then
        (let parenEnd = findParenEnd content 0;
             colonAfterParens = indexOf (sliceFrom content (parenEnd + 1)) CHR '':''
         in if parenEnd \<noteq> -1 \<and> colonAfterParens \<noteq> -1 then parenEnd + 1 + colonAfterParens
            else indexOf content CHR '':'')
      else indexOf content CHR '':'')"

text \<open>
  The number of opening parentheses of a string minus the number of its closing ones: a
  \<open>)\<close> matches an earlier \<open>(\<close> when it is the first one up to which the string from
  that \<open>(\<close> on is balanced.
\<close>

definition parenBalance :: "string \<Rightarrow> int" where
  "parenBalance s =
     int (length (filter (\<lambda>ch. ch = CHR ''('') s)) - int (length (filter (\<lambda>ch. ch = CHR '')'') s))"


section \<open>The parser state and the symbol table\<close>

text \<open>
  The fields of the class \<^verbatim>\<open>Parser\<close>. The lookup function \<^verbatim>\<open>systemLookup\<close> never
  changes and is a parameter \<open>lk\<close> of the functions that call it.
\<close>

record pstate =
  tokens :: "token list"
  position :: nat
  current :: token

definition endToken :: token where
  "endToken = \<lparr>ttype = TEnd, tvalue = [], tkind = [], tplace = 0, tcount = 0\<rparr>"

definition advance :: "pstate \<Rightarrow> pstate" where
  "advance st =
     (if position st < length (tokens st)
      then st\<lparr>current := tokens st ! position st, position := position st + 1\<rparr>
      else st\<lparr>current := endToken\<rparr>)"

definition initParser :: "token list \<Rightarrow> pstate" where
  "initParser toks = advance \<lparr>tokens = toks, position = 0, current = endToken\<rparr>"

text \<open>A parsing function returns its result and the state it leaves, or an error.\<close>

type_synonym 'a result = "error + 'a \<times> pstate"

type_synonym exprParser = "int \<Rightarrow> pstate \<Rightarrow> node result"

record symbolInfo =
  precedence :: int
  associativity :: "string option"
  stype :: string

definition prime :: string where
  "prime = [CHR 0x27]"

definition infixLeft :: "int \<Rightarrow> symbolInfo" where
  "infixLeft p = \<lparr>precedence = p, associativity = Some ''left'', stype = ''infix''\<rparr>"

definition infixRight :: "int \<Rightarrow> symbolInfo" where
  "infixRight p = \<lparr>precedence = p, associativity = Some ''right'', stype = ''infix''\<rparr>"

definition bracketInfo :: "int \<Rightarrow> string \<Rightarrow> symbolInfo" where
  "bracketInfo p ty = \<lparr>precedence = p, associativity = None, stype = ty\<rparr>"

text \<open>\<^verbatim>\<open>SYMBOL_TABLE\<close>, with the numbers of \<^verbatim>\<open>PRECEDENCE\<close> written out.\<close>

definition SYMBOL_TABLE :: "(string \<times> symbolInfo) list" where
  "SYMBOL_TABLE =
   [ ('':='', infixRight 10), ('':=:'', infixRight 10), ('':<:'', infixRight 10),
     ('':>:'', infixRight 10), ('':<=:'', infixRight 10), ('':>=:'', infixRight 10),
     ('':=>'', infixRight 10),
     (''|>'', infixLeft 20), (''||>'', infixLeft 20), (''|>>'', infixLeft 20),
     (''|>:'', infixLeft 20), (''|>?'', infixLeft 20), (''|+'', infixLeft 20),
     (''|*'', infixLeft 20), (''|:'', infixLeft 20), (''|;'', infixLeft 20),
     (''|^'', infixLeft 20), (''|?'', infixLeft 20),
     (''='', infixLeft 50), (''?='', infixLeft 50), (''!='', infixLeft 50),
     (''=='', infixLeft 50),
     (''<'', infixLeft 60), (''>'', infixLeft 60), (''<='', infixLeft 60),
     (''>='', infixLeft 60), (''?<'', infixLeft 60), (''?>'', infixLeft 60),
     (''?<='', infixLeft 60), (''?>='', infixLeft 60),
     ('':'', infixLeft 70),
     (''+'', infixLeft 80), (''-'', infixLeft 80),
     (''*'', infixLeft 90), (''/'', infixLeft 90), (''//'', infixLeft 90),
     (''%'', infixLeft 90), (''/^'', infixLeft 90), (''/~'', infixLeft 90),
     (''/%'', infixLeft 90),
     (''^'', infixRight 100), (''**'', infixRight 100),
     (''->'', infixRight 25), (''=>'', infixRight 10), ('':->'', infixRight 10),
     (''?'', infixLeft 45),
     (''.'', infixLeft 130),
     (prime, \<lparr>precedence = 115, associativity = Some ''left'', stype = ''calculus''\<rparr>),
     (''('', bracketInfo 0 ''grouping''), ('')'', bracketInfo 0 ''grouping''),
     (''['', bracketInfo 120 ''postfix''), ('']'', bracketInfo 0 ''grouping''),
     (''{'', bracketInfo 0 ''grouping''), (''}'', bracketInfo 0 ''grouping''),
     (''{{'', bracketInfo 0 ''codeblock''), (''}}'', bracketInfo 0 ''codeblock''),
     ('','', infixLeft 5),
     ('';'', \<lparr>precedence = 0, associativity = Some ''left'', stype = ''statement''\<rparr>) ]"

text \<open>
  \<^verbatim>\<open>getSymbolInfo\<close>. \<^verbatim>\<open>a || b\<close> takes \<open>b\<close> when \<open>a\<close> is missing, 0 or the empty
  string.
\<close>

definition getSymbolInfo :: "(string \<Rightarrow> sysinfo) \<Rightarrow> token \<Rightarrow> symbolInfo" where
  "getSymbolInfo lk token =
     (if ttype token = TSymbol then
        (case map_of SYMBOL_TABLE (tvalue token) of
           Some info \<Rightarrow> info
         | None \<Rightarrow> \<lparr>precedence = 0, associativity = None, stype = ''unknown''\<rparr>)
      else if ttype token = TSemicolonSequence then
        \<lparr>precedence = 0, associativity = None, stype = ''separator''\<rparr>
      else if ttype token = TIdentifier \<and> tkind token = ''System''
              \<and> sys_type (lk (tvalue token)) = ''operator'' then
        (let systemInfo = lk (tvalue token) in
         \<lparr>precedence =
            (case sys_precedence systemInfo of
               None \<Rightarrow> 90 | Some p \<Rightarrow> if p = 0 then 90 else p),
          associativity =
            Some (case sys_associativity systemInfo of
                    None \<Rightarrow> ''left'' | Some a \<Rightarrow> if a = [] then ''left'' else a),
          stype =
            (case sys_operatorType systemInfo of
               None \<Rightarrow> ''infix'' | Some t \<Rightarrow> if t = [] then ''infix'' else t)\<rparr>)
      else \<lparr>precedence = 0, associativity = None, stype = ''operand''\<rparr>)"

text \<open>The tests on the current token and on the left operand that the source repeats.\<close>

definition isUserIdentifierToken :: "token \<Rightarrow> bool" where
  "isUserIdentifierToken t = (ttype t = TIdentifier \<and> tkind t = ''User'')"

definition isCommentToken :: "token \<Rightarrow> bool" where
  "isCommentToken t = (ttype t = TString \<and> tkind t = ''comment'')"

definition isSemicolonToken :: "token \<Rightarrow> bool" where
  "isSemicolonToken t = (tvalue t = '';'' \<or> ttype t = TSemicolonSequence)"

definition isTerminator :: "token \<Rightarrow> bool" where
  "isTerminator t =
     (tvalue t = '';'' \<or> tvalue t = '','' \<or> tvalue t = '')'' \<or> tvalue t = '']''
      \<or> tvalue t = ''}'' \<or> tvalue t = ''}}'' \<or> ttype t = TSemicolonSequence)"

fun isIdentifierNode :: "node \<Rightarrow> bool" where
  "isIdentifierNode (UserIdentifier n) = True"
| "isIdentifierNode (SystemIdentifier n i) = True"
| "isIdentifierNode _ = False"

fun takesDerivative :: "node \<Rightarrow> bool" where
  "takesDerivative (UserIdentifier n) = True"
| "takesDerivative (SystemIdentifier n i) = True"
| "takesDerivative (FunctionCall f pos kw) = True"
| "takesDerivative (PropertyAccess ob pr) = True"
| "takesDerivative (Derivative f n vs ev ops) = True"
| "takesDerivative (Integral f n vs ev ops) = True"
| "takesDerivative _ = False"

text \<open>Writing a key of an object: an existing key keeps its place.\<close>

fun objectSet :: "(string \<times> 'v) list \<Rightarrow> string \<Rightarrow> 'v \<Rightarrow> (string \<times> 'v) list" where
  "objectSet [] k v = [(k, v)]"
| "objectSet ((k', v') # kvs) k v =
     (if k' = k then (k, v) # kvs else (k', v') # objectSet kvs k v)"

section \<open>Arrow lowering\<close>

text \<open>
  \<^verbatim>\<open>x.name || x.value\<close> for a node \<open>x\<close>: the name if the node has one that is not the
  empty string, else the value, else nothing.
\<close>

fun nameOrValue :: "node \<Rightarrow> node pname" where
  "nameOrValue (UserIdentifier n) = (if n = [] then NoName else Name n)"
| "nameOrValue (SystemIdentifier n i) = (if n = [] then NoName else Name n)"
| "nameOrValue (FunctionDefinition nm ps b) = NameNode nm"
| "nameOrValue (PatternMatchingFunction nm ps pats m) = NameNode nm"
| "nameOrValue (Number v) = Name v"
| "nameOrValue (String v k) = Name v"
| "nameOrValue (Comment v k) = Name v"
| "nameOrValue _ = NoName"

definition emptyParams :: "node params" where
  "emptyParams = Params [] [] (Some []) []"

text \<open>\<^verbatim>\<open>parseParameterFromArg\<close>: the parameter and the condition, if any.\<close>

fun parseParameterFromArg :: "node \<Rightarrow> node param \<times> node option" where
  "parseParameterFromArg (BinaryOperation opr l r) =
     (if opr = '':='' then
        (case r of
           BinaryOperation ropr rl rr \<Rightarrow>
             (if ropr = ''?'' then (Param (nameOrValue l) (Some rl), Some rr)
              else (Param (nameOrValue l) (Some r), None))
         | _ \<Rightarrow> (Param (nameOrValue l) (Some r), None))
      else if opr = ''?'' then (Param (nameOrValue l) None, Some r)
      else (Param NoName None, None))"
| "parseParameterFromArg (UserIdentifier n) = (Param (nameOrValue (UserIdentifier n)) None, None)"
| "parseParameterFromArg _ = (Param NoName None, None)"

text \<open>
  \<^verbatim>\<open>convertArgsToParams\<close>, for the arguments of a \<open>FunctionCall\<close> node (the branch for
  an array of arguments is dead: no caller passes one).
\<close>

fun keywordParam :: "string \<times> node \<Rightarrow> node param \<times> node option" where
  "keywordParam (key, BinaryOperation opr l r) =
     (if opr = ''?'' then (Param (Name key) (Some l), Some r)
      else (Param (Name key) (Some (BinaryOperation opr l r)), None))"
| "keywordParam (key, v) = (Param (Name key) (Some v), None)"

definition conditionsOf :: "('a \<times> node option) list \<Rightarrow> node list" where
  "conditionsOf rs = concat (map (\<lambda>r. case snd r of None \<Rightarrow> [] | Some c \<Rightarrow> [c]) rs)"

definition convertArgsToParams :: "node list \<Rightarrow> (string \<times> node) list \<Rightarrow> node params" where
  "convertArgsToParams positionalArgs keywordArgs =
     (let ps = map parseParameterFromArg positionalArgs;
          ks = map keywordParam keywordArgs
      in Params (map fst ps) (map fst ks) (Some (conditionsOf ps @ conditionsOf ks)) [])"

text \<open>\<^verbatim>\<open>parseInfix\<close>, operator \<^verbatim>\<open>:->\<close>, once the right operand is parsed.\<close>

fun functionDefinition :: "node \<Rightarrow> node \<Rightarrow> node" where
  "functionDefinition (FunctionCall f pos kw) right =
     FunctionDefinition f (convertArgsToParams pos kw) right"
| "functionDefinition left right = FunctionDefinition left (Params [] [] None []) right"

text \<open>
  \<^verbatim>\<open>parseInfix\<close>, operator \<^verbatim>\<open>:=>\<close>, once the right operand is parsed: the entries to
  read patterns from, the metadata, and the pattern of one entry (none for an entry that
  is neither a \<open>FunctionLambda\<close> nor a \<open>BinaryOperation\<close> with \<^verbatim>\<open>->\<close>).
\<close>

fun rawPatterns :: "node \<Rightarrow> node list" where
  "rawPatterns (Array es) = es"
| "rawPatterns (WithMetadata (Array (Array inner # es)) md) = inner"
| "rawPatterns (WithMetadata (Array es) md) = es"
| "rawPatterns right = [right]"

fun globalMetadata :: "node \<Rightarrow> (string \<times> node) list" where
  "globalMetadata (WithMetadata (Array es) md) = md"
| "globalMetadata right = []"

fun legacyParameters :: "node \<Rightarrow> node params" where
  "legacyParameters (Grouping (BinaryOperation opr l r)) =
     (if opr = ''?'' then Params [Param (nameOrValue l) None] [] (Some [r]) []
      else emptyParams)"
| "legacyParameters (Grouping (UserIdentifier n)) =
     Params [Param (nameOrValue (UserIdentifier n)) None] [] (Some []) []"
| "legacyParameters left = emptyParams"

fun patternOf :: "node \<Rightarrow> (node params \<times> node) list" where
  "patternOf (FunctionLambda ps body) = [(ps, body)]"
| "patternOf (BinaryOperation opr l r) =
     (if opr = ''->'' then [(legacyParameters l, r)] else [])"
| "patternOf pattern = []"

fun patternMatchingFunction :: "node \<Rightarrow> node \<Rightarrow> node" where
  "patternMatchingFunction (FunctionCall f pos kw) right =
     PatternMatchingFunction f (convertArgsToParams pos kw)
       (concat (map patternOf (rawPatterns right))) (globalMetadata right)"
| "patternMatchingFunction left right =
     PatternMatchingFunction left emptyParams
       (concat (map patternOf (rawPatterns right))) (globalMetadata right)"

text \<open>\<^verbatim>\<open>parseInfix\<close>, operator \<^verbatim>\<open>->\<close>, once the right operand is parsed.\<close>

fun userIdentifierParam :: "node \<Rightarrow> node param list" where
  "userIdentifierParam (UserIdentifier n) = [Param (Name n) None]"
| "userIdentifierParam element = []"

fun arrowLambda :: "node \<Rightarrow> node \<Rightarrow> node" where
  "arrowLambda (Grouping (ParameterList parameters)) right = FunctionLambda parameters right"
| "arrowLambda (Grouping (UserIdentifier n)) right =
     FunctionLambda (Params [Param (Name n) None] [] (Some []) []) right"
| "arrowLambda (Grouping (BinaryOperation opr l r)) right =
     (if opr = ''?'' then FunctionLambda (Params [Param (nameOrValue l) None] [] (Some [r]) []) right
      else FunctionLambda emptyParams right)"
| "arrowLambda (Grouping expression) right = FunctionLambda emptyParams right"
| "arrowLambda (Tuple elements) right =
     FunctionLambda (Params (concat (map userIdentifierParam elements)) [] (Some []) []) right"
| "arrowLambda left right = BinaryOperation ''->'' left right"

text \<open>
  All the operators of \<^verbatim>\<open>parseInfix\<close> that parse their right operand with
  \<^verbatim>\<open>parseExpression(rightPrec)\<close> and then build a node from both operands.
\<close>

definition infixNode :: "string \<Rightarrow> node \<Rightarrow> node \<Rightarrow> node" where
  "infixNode opr left right =
     (if opr = '':->'' then functionDefinition left right
      else if opr = '':=>'' then patternMatchingFunction left right
      else if opr = ''->'' then arrowLambda left right
      else if opr = ''|>'' then Pipe left right
      else if opr = ''||>'' then ExplicitPipe left right
      else if opr = ''|>>'' then MapPipe left right
      else if opr = ''|>?'' then Filter left right
      else if opr = ''|>:'' then Reduce left right
      else BinaryOperation opr left right)"

text \<open>\<^verbatim>\<open>containsCalculusOperations\<close>.\<close>

fun containsCalculusOperations :: "node \<Rightarrow> bool" where
  "containsCalculusOperations (Derivative f n vs ev ops) = True"
| "containsCalculusOperations (Integral f n vs ev ops) = True"
| "containsCalculusOperations (UserIdentifier n) = (CHR 0x27 \<in> set n)"
| "containsCalculusOperations (BinaryOperation opr l r) =
     (containsCalculusOperations l \<or> containsCalculusOperations r)"
| "containsCalculusOperations (Pipe l r) =
     (containsCalculusOperations l \<or> containsCalculusOperations r)"
| "containsCalculusOperations (ExplicitPipe l r) =
     (containsCalculusOperations l \<or> containsCalculusOperations r)"
| "containsCalculusOperations (MapPipe l r) =
     (containsCalculusOperations l \<or> containsCalculusOperations r)"
| "containsCalculusOperations (Filter l r) =
     (containsCalculusOperations l \<or> containsCalculusOperations r)"
| "containsCalculusOperations (Reduce l r) =
     (containsCalculusOperations l \<or> containsCalculusOperations r)"
| "containsCalculusOperations (FunctionCall f pos kw) = containsCalculusOperations f"
| "containsCalculusOperations (Tuple es) = (\<exists>e \<in> set es. containsCalculusOperations e)"
| "containsCalculusOperations (Array es) = (\<exists>e \<in> set es. containsCalculusOperations e)"
| "containsCalculusOperations (Set es) = (\<exists>e \<in> set es. containsCalculusOperations e)"
| "containsCalculusOperations (Map es) = (\<exists>e \<in> set es. containsCalculusOperations e)"
| "containsCalculusOperations (System es) = (\<exists>e \<in> set es. containsCalculusOperations e)"
| "containsCalculusOperations expr = False"

section \<open>Parameter lists and argument lists\<close>

text \<open>
  The functions below call \<^verbatim>\<open>parseExpression\<close>; they take it as the parameter \<open>pe\<close>
  and the recursion is closed in \<open>parseExpression\<close> at the end. Every loop of the source
  is a recursive function on a bound \<open>fuel\<close> of iterations, which answers \<open>OutOfFuel\<close>
  when the bound is used up.

  \<^verbatim>\<open>parseFunctionParameter\<close>.
\<close>

definition parseFunctionParameter :: "exprParser \<Rightarrow> bool \<Rightarrow> pstate \<Rightarrow> node param result" where
  "parseFunctionParameter pe isKeywordOnly st =
     (if isUserIdentifierToken (current st) then
        (let name = tvalue (current st); st1 = advance st in
         if tvalue (current st1) = '':='' then
           (case pe 11 (advance st1) of
              Inl e \<Rightarrow> Inl e
            | Inr (dv, st2) \<Rightarrow> Inr (Param (Name name) (Some dv), st2))
         else if isKeywordOnly then Inl KeywordOnlyNeedsDefault
         else Inr (Param (Name name) None, st1))
      else Inl ExpectedParameterName)"

text \<open>
  \<^verbatim>\<open>parseFunctionParameters\<close>: the parameter specification is kept as its three
  lists \<open>(positional, keyword, conditionals)\<close> while the loop runs.
\<close>

type_synonym paramsAcc = "node param list \<times> node param list \<times> node list"

definition pushParam :: "bool \<Rightarrow> node param \<Rightarrow> paramsAcc \<Rightarrow> paramsAcc" where
  "pushParam inKeywordSection p acc =
     (case acc of (pos, kw, conds) \<Rightarrow>
        if inKeywordSection then (pos, kw @ [p], conds) else (pos @ [p], kw, conds))"

definition pushCondition :: "node \<Rightarrow> paramsAcc \<Rightarrow> paramsAcc" where
  "pushCondition c acc = (case acc of (pos, kw, conds) \<Rightarrow> (pos, kw, conds @ [c]))"

definition parseCondition :: "exprParser \<Rightarrow> paramsAcc \<Rightarrow> pstate \<Rightarrow> paramsAcc result" where
  "parseCondition pe acc st =
     (if tvalue (current st) = ''?'' then
        (case pe 46 (advance st) of
           Inl e \<Rightarrow> Inl e
         | Inr (condition, st1) \<Rightarrow> Inr (pushCondition condition acc, st1))
      else Inr (acc, st))"

fun parametersLoop :: "exprParser \<Rightarrow> nat \<Rightarrow> bool \<Rightarrow> paramsAcc \<Rightarrow> pstate \<Rightarrow> paramsAcc result" where
  "parametersLoop pe 0 inKeywordSection acc st = Inl OutOfFuel"
| "parametersLoop pe (Suc fuel) inKeywordSection acc st =
     (if tvalue (current st) = '')'' \<or> ttype (current st) = TEnd then Inr (acc, st)
      else if tvalue (current st) = '';'' then parametersLoop pe fuel True acc (advance st)
      else
        (case parseFunctionParameter pe inKeywordSection st of
           Inl e \<Rightarrow> Inl e
         | Inr (p, st1) \<Rightarrow>
             (case parseCondition pe (pushParam inKeywordSection p acc) st1 of
                Inl e \<Rightarrow> Inl e
              | Inr (acc2, st2) \<Rightarrow>
                  if tvalue (current st2) = '','' then
                    parametersLoop pe fuel inKeywordSection acc2 (advance st2)
                  else if tvalue (current st2) \<noteq> '')'' \<and> tvalue (current st2) \<noteq> '';'' then
                    Inr (acc2, st2)
                  else parametersLoop pe fuel inKeywordSection acc2 st2)))"

definition parseFunctionParameters :: "exprParser \<Rightarrow> nat \<Rightarrow> pstate \<Rightarrow> node params result" where
  "parseFunctionParameters pe fuel st =
     (if tvalue (current st) = '')'' then Inr (emptyParams, st)
      else
        (case parametersLoop pe fuel False ([], [], []) st of
           Inl e \<Rightarrow> Inl e
         | Inr ((pos, kw, conds), st1) \<Rightarrow> Inr (Params pos kw (Some conds) [], st1)))"

text \<open>\<^verbatim>\<open>parseFunctionCallArgs\<close>: the positional arguments and the keyword arguments.\<close>

type_synonym callArgs = "node list \<times> (string \<times> node) list"

definition parseKeywordArgument :: "exprParser \<Rightarrow> callArgs \<Rightarrow> pstate \<Rightarrow> callArgs result" where
  "parseKeywordArgument pe args st =
     (if isUserIdentifierToken (current st) then
        (let keyName = tvalue (current st); st1 = advance st in
         if tvalue (current st1) = '':='' then
           (case pe 11 (advance st1) of
              Inl e \<Rightarrow> Inl e
            | Inr (v, st2) \<Rightarrow> Inr ((fst args, objectSet (snd args) keyName v), st2))
         else Inr ((fst args, objectSet (snd args) keyName (UserIdentifier keyName)), st1))
      else Inl ExpectedKeywordIdentifier)"

definition parsePositionalArgument :: "exprParser \<Rightarrow> callArgs \<Rightarrow> pstate \<Rightarrow> callArgs result" where
  "parsePositionalArgument pe args st =
     (case pe 0 st of
        Inl e \<Rightarrow> Inl e
      | Inr (v, st1) \<Rightarrow> Inr ((fst args @ [v], snd args), st1))"

fun callArgsLoop :: "exprParser \<Rightarrow> nat \<Rightarrow> bool \<Rightarrow> callArgs \<Rightarrow> pstate \<Rightarrow> callArgs result" where
  "callArgsLoop pe 0 inKeywordSection args st = Inl OutOfFuel"
| "callArgsLoop pe (Suc fuel) inKeywordSection args st =
     (if tvalue (current st) = '')'' \<or> ttype (current st) = TEnd then Inr (args, st)
      else if tvalue (current st) = '';'' then callArgsLoop pe fuel True args (advance st)
      else
        (case (if inKeywordSection then parseKeywordArgument pe args st
               else parsePositionalArgument pe args st) of
           Inl e \<Rightarrow> Inl e
         | Inr (args1, st1) \<Rightarrow>
             if tvalue (current st1) = '','' then
               callArgsLoop pe fuel inKeywordSection args1 (advance st1)
             else if tvalue (current st1) \<noteq> '')'' \<and> tvalue (current st1) \<noteq> '';'' then
               Inr (args1, st1)
             else callArgsLoop pe fuel inKeywordSection args1 st1))"

definition parseFunctionCallArgs :: "exprParser \<Rightarrow> nat \<Rightarrow> pstate \<Rightarrow> callArgs result" where
  "parseFunctionCallArgs pe fuel st =
     (if tvalue (current st) = '')'' then Inr (([], []), st)
      else callArgsLoop pe fuel False ([], []) st)"

section \<open>Parentheses\<close>

text \<open>
  \<^verbatim>\<open>parseGrouping\<close>, the scan ahead: over the tokens from index \<^verbatim>\<open>this.position\<close> on,
  with \<^verbatim>\<open>parenDepth\<close> and \<^verbatim>\<open>hasComma\<close>; the result is
  \<open>(hasSemicolon, hasComma)\<close>.
\<close>

fun scanGrouping :: "token list \<Rightarrow> nat \<Rightarrow> bool \<Rightarrow> bool \<times> bool" where
  "scanGrouping [] parenDepth hasComma = (False, hasComma)"
| "scanGrouping (t # ts) parenDepth hasComma =
     (if tvalue t = ''('' then scanGrouping ts (parenDepth + 1) hasComma
      else if tvalue t = '')'' then
        (if parenDepth = 0 then (False, hasComma)
         else scanGrouping ts (parenDepth - 1) hasComma)
      else if parenDepth = 0 then
        (if tvalue t = '';'' then (True, hasComma)
         else if tvalue t = '','' then scanGrouping ts parenDepth True
         else scanGrouping ts parenDepth hasComma)
      else scanGrouping ts parenDepth hasComma)"

text \<open>\<^verbatim>\<open>parseTupleElements\<close>: the loop after the first element.\<close>

fun tupleLoop :: "exprParser \<Rightarrow> nat \<Rightarrow> node list \<Rightarrow> pstate \<Rightarrow> node list result" where
  "tupleLoop pe 0 elements st = Inl OutOfFuel"
| "tupleLoop pe (Suc fuel) elements st =
     (if tvalue (current st) = '','' then
        (let st1 = advance st in
         if tvalue (current st1) = '','' then Inl ConsecutiveCommas
         else if tvalue (current st1) = '')'' then Inr (elements, st1)
         else
           (case pe 0 st1 of
              Inl e \<Rightarrow> Inl e
            | Inr (element, st2) \<Rightarrow> tupleLoop pe fuel (elements @ [element]) st2))
      else Inr (elements, st))"

definition parseTupleElements :: "exprParser \<Rightarrow> nat \<Rightarrow> pstate \<Rightarrow> node list result" where
  "parseTupleElements pe fuel st =
     (case pe 0 st of
        Inl e \<Rightarrow> Inl e
      | Inr (firstElement, st1) \<Rightarrow> tupleLoop pe fuel [firstElement] st1)"

definition groupingContent :: "exprParser \<Rightarrow> nat \<Rightarrow> bool \<times> bool \<Rightarrow> pstate \<Rightarrow> node result" where
  "groupingContent pe fuel scan st =
     (case scan of (hasSemicolon, hasComma) \<Rightarrow>
        if hasSemicolon then
          (case parseFunctionParameters pe fuel st of
             Inl e \<Rightarrow> Inl e
           | Inr (parameters, st1) \<Rightarrow> Inr (Grouping (ParameterList parameters), st1))
        else if hasComma then
          (case parseTupleElements pe fuel st of
             Inl e \<Rightarrow> Inl e
           | Inr (elements, st1) \<Rightarrow> Inr (Tuple elements, st1))
        else
          (case pe 0 st of
             Inl e \<Rightarrow> Inl e
           | Inr (expr, st1) \<Rightarrow> Inr (Grouping expr, st1)))"

definition parseGrouping :: "exprParser \<Rightarrow> nat \<Rightarrow> pstate \<Rightarrow> node result" where
  "parseGrouping pe fuel st =
     (let st1 = advance st in
      if tvalue (current st1) = '')'' then Inr (Tuple [], advance st1)
      else
        (case groupingContent pe fuel
                (scanGrouping (drop (position st1) (tokens st1)) 0 False) st1 of
           Inl e \<Rightarrow> Inl e
         | Inr (result, st2) \<Rightarrow>
             if tvalue (current st2) \<noteq> '')'' then Inl ExpectedClosingParen
             else Inr (result, advance st2)))"

section \<open>Square brackets\<close>

text \<open>
  The local variables of \<^verbatim>\<open>parseMatrixOrArray\<close>. An entry of \<^verbatim>\<open>matrixStructure\<close> is
  the pair of its \<^verbatim>\<open>row\<close> and its \<^verbatim>\<open>separatorLevel\<close>.
\<close>

record arrayState =
  arrElements :: "node list"
  hasMetadata :: bool
  primaryElement :: "node option"
  metadataMap :: "(string \<times> node) list"
  nonMetadataCount :: nat
  hasSemicolons :: bool
  matrixStructure :: "(node list \<times> nat) list"
  currentRow :: "node list"

definition initialArrayState :: arrayState where
  "initialArrayState =
     \<lparr>arrElements = [], hasMetadata = False, primaryElement = None, metadataMap = [],
      nonMetadataCount = 0, hasSemicolons = False, matrixStructure = [], currentRow = []\<rparr>"

definition consumeSemicolonSequence :: "pstate \<Rightarrow> nat \<times> pstate" where
  "consumeSemicolonSequence st =
     (if ttype (current st) = TSemicolonSequence then (tcount (current st), advance st)
      else if tvalue (current st) = '';'' then (1, advance st)
      else (0, st))"

text \<open>The key of a metadata element \<^verbatim>\<open>key := value\<close>.\<close>

fun metadataKey :: "node \<Rightarrow> error + string" where
  "metadataKey (UserIdentifier n) = Inr n"
| "metadataKey (SystemIdentifier n i) = Inr n"
| "metadataKey (String v k) = Inr v"
| "metadataKey left = Inl MetadataKeyNotIdentifier"

fun isAssignment :: "node \<Rightarrow> bool" where
  "isAssignment (BinaryOperation opr l r) = (opr = '':='')"
| "isAssignment element = False"

text \<open>
  One element of the container, once parsed: a metadata element, or a regular element.
\<close>

fun arrayElement :: "arrayState \<Rightarrow> node \<Rightarrow> error + arrayState" where
  "arrayElement a (BinaryOperation opr l r) =
     (if opr = '':='' then
        (if hasSemicolons a then Inl CannotMixMatrixMetadataNested
         else
           (case metadataKey l of
              Inl e \<Rightarrow> Inl e
            | Inr key \<Rightarrow>
                Inr (a\<lparr>hasMetadata := True, metadataMap := objectSet (metadataMap a) key r\<rparr>)))
      else if hasMetadata a then Inl CannotMixArrayMetadata
      else
        Inr (a\<lparr>nonMetadataCount := nonMetadataCount a + 1,
               primaryElement :=
                 (if nonMetadataCount a + 1 = 1 then Some (BinaryOperation opr l r)
                  else primaryElement a),
               arrElements := arrElements a @ [BinaryOperation opr l r],
               currentRow := currentRow a @ [BinaryOperation opr l r]\<rparr>))"
| "arrayElement a element =
     (if hasMetadata a then Inl CannotMixArrayMetadata
      else
        Inr (a\<lparr>nonMetadataCount := nonMetadataCount a + 1,
               primaryElement :=
                 (if nonMetadataCount a + 1 = 1 then Some element else primaryElement a),
               arrElements := arrElements a @ [element],
               currentRow := currentRow a @ [element]\<rparr>))"

text \<open>
  What follows an element: a comma, a row separator, or the end of the loop. The result
  says whether the loop goes on to its condition (\<open>True\<close>) or is left by \<^verbatim>\<open>break\<close>.
\<close>

definition arraySeparator :: "arrayState \<Rightarrow> pstate \<Rightarrow> (bool \<times> arrayState) result" where
  "arraySeparator a st =
     (if tvalue (current st) = '','' then Inr ((True, a), advance st)
      else if isSemicolonToken (current st) then
        (if hasMetadata a then Inl CannotMixMatrixMetadata
         else
           (case consumeSemicolonSequence st of (semicolonCount, st1) \<Rightarrow>
              Inr ((True, a\<lparr>hasSemicolons := True,
                             matrixStructure := matrixStructure a @ [(currentRow a, semicolonCount)],
                             currentRow := []\<rparr>), st1)))
      else Inr ((False, a), st))"

definition leadingSemicolons :: "arrayState \<Rightarrow> pstate \<Rightarrow> arrayState \<times> pstate" where
  "leadingSemicolons a st =
     (case consumeSemicolonSequence st of (semicolonCount, st1) \<Rightarrow>
        (a\<lparr>hasSemicolons := True,
           matrixStructure := matrixStructure a @ [([], semicolonCount)]\<rparr>, st1))"

fun arrayLoop :: "exprParser \<Rightarrow> nat \<Rightarrow> arrayState \<Rightarrow> pstate \<Rightarrow> arrayState result" where
  "arrayLoop pe 0 a st = Inl OutOfFuel"
| "arrayLoop pe (Suc fuel) a st =
     (if isSemicolonToken (current st) then
        (case leadingSemicolons a st of (a1, st1) \<Rightarrow>
           if tvalue (current st1) \<noteq> '']'' \<and> ttype (current st1) \<noteq> TEnd
           then arrayLoop pe fuel a1 st1 else Inr (a1, st1))
      else
        (case pe 0 st of
           Inl e \<Rightarrow> Inl e
         | Inr (element, st1) \<Rightarrow>
             (case arrayElement a element of
                Inl e \<Rightarrow> Inl e
              | Inr a1 \<Rightarrow>
                  (case arraySeparator a1 st1 of
                     Inl e \<Rightarrow> Inl e
                   | Inr ((goOn, a2), st2) \<Rightarrow>
                       if goOn \<and> tvalue (current st2) \<noteq> '']'' \<and> ttype (current st2) \<noteq> TEnd
                       then arrayLoop pe fuel a2 st2 else Inr (a2, st2)))))"

definition arrayElements :: "exprParser \<Rightarrow> nat \<Rightarrow> pstate \<Rightarrow> arrayState result" where
  "arrayElements pe fuel st =
     (if tvalue (current st) \<noteq> '']'' then arrayLoop pe fuel initialArrayState st
      else Inr (initialArrayState, st))"

text \<open>
  \<^verbatim>\<open>Math.max\<close> of the separator levels, and \<^verbatim>\<open>buildMatrixTensor\<close>. The list is never
  empty where the source calls it.
\<close>

definition maxSeparatorLevel :: "(node list \<times> nat) list \<Rightarrow> nat" where
  "maxSeparatorLevel structure = foldr max (map snd structure) 0"

definition buildMatrixTensor :: "(node list \<times> nat) list \<Rightarrow> node" where
  "buildMatrixTensor structure =
     (if maxSeparatorLevel structure = 1 then Matrix (map fst structure)
      else Tensor structure (maxSeparatorLevel structure + 1))"

text \<open>\<^verbatim>\<open>parseMatrixOrArray\<close> after its loop.\<close>

definition finalStructure :: "arrayState \<Rightarrow> (node list \<times> nat) list" where
  "finalStructure a =
     (if currentRow a \<noteq> [] \<or> hasSemicolons a then matrixStructure a @ [(currentRow a, 0)]
      else matrixStructure a)"

definition arrayResult :: "arrayState \<Rightarrow> error + node" where
  "arrayResult a =
     (if hasMetadata a \<and> nonMetadataCount a > 1 then Inl CannotMixArrayMetadata
      else if hasMetadata a then
        Inr (WithMetadata (case primaryElement a of Some p \<Rightarrow> p | None \<Rightarrow> Array [])
               (metadataMap a))
      else if hasSemicolons a then Inr (buildMatrixTensor (finalStructure a))
      else Inr (Array (arrElements a)))"

definition parseMatrixOrArray :: "exprParser \<Rightarrow> nat \<Rightarrow> pstate \<Rightarrow> node result" where
  "parseMatrixOrArray pe fuel st =
     (case arrayElements pe fuel st of
        Inl e \<Rightarrow> Inl e
      | Inr (a, st1) \<Rightarrow>
          (case arrayResult a of
             Inl e \<Rightarrow> Inl e
           | Inr result \<Rightarrow> Inr (result, st1)))"

definition parseArray :: "exprParser \<Rightarrow> nat \<Rightarrow> pstate \<Rightarrow> node result" where
  "parseArray pe fuel st =
     (case parseMatrixOrArray pe fuel (advance st) of
        Inl e \<Rightarrow> Inl e
      | Inr (result, st1) \<Rightarrow>
          if tvalue (current st1) \<noteq> '']'' then Inl ExpectedClosingBracket
          else Inr (result, advance st1))"

section \<open>Braces\<close>

text \<open>
  The local variables of \<^verbatim>\<open>parseBraceContainer\<close>; \<^verbatim>\<open>hasPatternMatches\<close> is never set
  and is left out.
\<close>

record braceState =
  braceElements :: "node list"
  hasAssignments :: bool
  hasEquations :: bool
  braceHasSemicolons :: bool

definition initialBraceState :: braceState where
  "initialBraceState =
     \<lparr>braceElements = [], hasAssignments = False, hasEquations = False,
      braceHasSemicolons = False\<rparr>"

definition equationOperators :: "string list" where
  "equationOperators = ['':=:'', '':>:'', '':<:'', '':<=:'', '':>=:'']"

fun isEquation :: "node \<Rightarrow> bool" where
  "isEquation (BinaryOperation opr l r) = (opr \<in> set equationOperators)"
| "isEquation element = False"

fun isPatternMatchingFunction :: "node \<Rightarrow> bool" where
  "isPatternMatchingFunction (PatternMatchingFunction nm ps pats m) = True"
| "isPatternMatchingFunction element = False"

definition braceElement :: "braceState \<Rightarrow> node \<Rightarrow> error + braceState" where
  "braceElement b element =
     (if isPatternMatchingFunction element then Inl PatternMatchingInBraces
      else
        Inr (b\<lparr>braceElements := braceElements b @ [element],
               hasAssignments := (hasAssignments b \<or> isAssignment element),
               hasEquations := (hasEquations b \<or> isEquation element)\<rparr>))"

fun braceLoop :: "exprParser \<Rightarrow> nat \<Rightarrow> braceState \<Rightarrow> pstate \<Rightarrow> braceState result" where
  "braceLoop pe 0 b st = Inl OutOfFuel"
| "braceLoop pe (Suc fuel) b st =
     (case pe 0 st of
        Inl e \<Rightarrow> Inl e
      | Inr (element, st1) \<Rightarrow>
          (case braceElement b element of
             Inl e \<Rightarrow> Inl e
           | Inr b1 \<Rightarrow>
               if tvalue (current st1) = '','' then
                 (let st2 = advance st1 in
                  if tvalue (current st2) \<noteq> ''}'' \<and> ttype (current st2) \<noteq> TEnd
                  then braceLoop pe fuel b1 st2 else Inr (b1, st2))
               else if tvalue (current st1) = '';'' then
                 (let b2 = b1\<lparr>braceHasSemicolons := True\<rparr>; st2 = advance st1 in
                  if tvalue (current st2) \<noteq> ''}'' \<and> ttype (current st2) \<noteq> TEnd
                  then braceLoop pe fuel b2 st2 else Inr (b2, st2))
               else Inr (b1, st1)))"

definition braceElementsOf :: "exprParser \<Rightarrow> nat \<Rightarrow> pstate \<Rightarrow> braceState result" where
  "braceElementsOf pe fuel st =
     (if tvalue (current st) \<noteq> ''}'' then braceLoop pe fuel initialBraceState st
      else Inr (initialBraceState, st))"

text \<open>The container type and the check that its elements are of one kind.\<close>

definition braceResult :: "braceState \<Rightarrow> error + node" where
  "braceResult b =
     (if hasEquations b then
        (if \<not> braceHasSemicolons b then Inl SystemWithoutSemicolons
         else if hasAssignments b then Inl CannotMixEquations
         else if \<exists>element \<in> set (braceElements b). \<not> isEquation element
           then Inl SystemOnlyEquations
         else Inr (System (braceElements b)))
      else if hasAssignments b then
        (if \<exists>element \<in> set (braceElements b). \<not> isAssignment element then Inl MapOnlyPairs
         else Inr (Map (braceElements b)))
      else Inr (Set (braceElements b)))"

definition parseBraceContainer :: "exprParser \<Rightarrow> nat \<Rightarrow> pstate \<Rightarrow> node result" where
  "parseBraceContainer pe fuel st =
     (case braceElementsOf pe fuel (advance st) of
        Inl e \<Rightarrow> Inl e
      | Inr (b, st1) \<Rightarrow>
          if tvalue (current st1) \<noteq> ''}'' then Inl ExpectedClosingBrace
          else
            (case braceResult b of
               Inl e \<Rightarrow> Inl e
             | Inr result \<Rightarrow> Inr (result, advance st1)))"

section \<open>Code blocks and unary operators\<close>

fun codeBlockLoop :: "exprParser \<Rightarrow> nat \<Rightarrow> node list \<Rightarrow> pstate \<Rightarrow> node list result" where
  "codeBlockLoop pe 0 statements st = Inl OutOfFuel"
| "codeBlockLoop pe (Suc fuel) statements st =
     (case pe 0 st of
        Inl e \<Rightarrow> Inl e
      | Inr (statement, st1) \<Rightarrow>
          if tvalue (current st1) = '';'' then
            (let st2 = advance st1 in
             if tvalue (current st2) = ''}}'' then Inr (statements @ [statement], st2)
             else if ttype (current st2) \<noteq> TEnd
               then codeBlockLoop pe fuel (statements @ [statement]) st2
             else Inr (statements @ [statement], st2))
          else if tvalue (current st1) = ''}}'' then Inr (statements @ [statement], st1)
          else if ttype (current st1) = TEnd then Inl ExpectedClosingCodeBlock
          else Inr (statements @ [statement], st1))"

definition parseCodeBlock :: "exprParser \<Rightarrow> nat \<Rightarrow> pstate \<Rightarrow> node result" where
  "parseCodeBlock pe fuel st =
     (case (if tvalue (current (advance st)) \<noteq> ''}}''
            then codeBlockLoop pe fuel [] (advance st) else Inr ([], advance st)) of
        Inl e \<Rightarrow> Inl e
      | Inr (statements, st1) \<Rightarrow>
          if tvalue (current st1) \<noteq> ''}}'' then Inl ExpectedClosingCodeBlock
          else Inr (CodeBlock statements, advance st1))"

definition parseUnaryOperator :: "exprParser \<Rightarrow> pstate \<Rightarrow> node result" where
  "parseUnaryOperator pe st =
     (case pe 110 (advance st) of
        Inl e \<Rightarrow> Inl e
      | Inr (operand, st1) \<Rightarrow> Inr (UnaryOperation (tvalue (current st)) operand, st1))"

section \<open>Derivatives and integrals\<close>

text \<open>The run of quote tokens: its length and the state after it.\<close>

fun quotesLoop :: "nat \<Rightarrow> nat \<Rightarrow> pstate \<Rightarrow> nat result" where
  "quotesLoop 0 count st = Inl OutOfFuel"
| "quotesLoop (Suc fuel) count st =
     (if tvalue (current st) = prime then quotesLoop fuel (count + 1) (advance st)
      else Inr (count, st))"

text \<open>\<^verbatim>\<open>parseVariableList\<close>: the names of the variables.\<close>

fun variableLoop :: "nat \<Rightarrow> string list \<Rightarrow> pstate \<Rightarrow> string list result" where
  "variableLoop 0 variables st = Inl OutOfFuel"
| "variableLoop (Suc fuel) variables st =
     (if ttype (current st) = TIdentifier then
        (let variables1 = variables @ [tvalue (current st)]; st1 = advance st in
         if tvalue (current st1) = '','' then variableLoop fuel variables1 (advance st1)
         else if tvalue (current st1) = '']'' then Inr (variables1, st1)
         else Inl ExpectedCommaOrBracket)
      else Inl ExpectedVariableName)"

definition parseVariableList :: "nat \<Rightarrow> pstate \<Rightarrow> string list result" where
  "parseVariableList fuel st =
     (if tvalue (current st) \<noteq> '']'' then variableLoop fuel [] st else Inr ([], st))"

text \<open>The optional \<^verbatim>\<open>[x, y]\<close> after the quotes, in both functions.\<close>

definition bracketVariables :: "nat \<Rightarrow> pstate \<Rightarrow> string list option result" where
  "bracketVariables fuel st =
     (if tvalue (current st) = ''['' then
        (case parseVariableList fuel (advance st) of
           Inl e \<Rightarrow> Inl e
         | Inr (variables, st1) \<Rightarrow>
             if tvalue (current st1) \<noteq> '']'' then Inl ExpectedClosingBracketAfterVariables
             else Inr (Some variables, advance st1))
      else Inr (None, st))"

text \<open>\<^verbatim>\<open>parseCalculusParentheses\<close>: \<open>(isEvaluation, content)\<close>.\<close>

fun calculusLoop ::
  "exprParser \<Rightarrow> nat \<Rightarrow> bool \<times> node list \<Rightarrow> pstate \<Rightarrow> (bool \<times> node list) result" where
  "calculusLoop pe 0 acc st = Inl OutOfFuel"
| "calculusLoop pe (Suc fuel) acc st =
     (if tvalue (current st) \<noteq> '')'' \<and> ttype (current st) \<noteq> TEnd then
        (case pe 0 st of
           Inl e \<Rightarrow> Inl e
         | Inr (expr, st1) \<Rightarrow>
             (let acc1 = (fst acc \<and> \<not> containsCalculusOperations expr, snd acc @ [expr]) in
              if tvalue (current st1) = '','' then calculusLoop pe fuel acc1 (advance st1)
              else Inr (acc1, st1)))
      else Inr (acc, st))"

definition parseCalculusParentheses ::
  "exprParser \<Rightarrow> nat \<Rightarrow> pstate \<Rightarrow> (bool \<times> node list) result" where
  "parseCalculusParentheses pe fuel st =
     (case calculusLoop pe fuel (True, []) (advance st) of
        Inl e \<Rightarrow> Inl e
      | Inr (acc, st1) \<Rightarrow>
          if tvalue (current st1) \<noteq> '')'' then Inl ExpectedClosingParen
          else Inr (acc, advance st1))"

text \<open>
  The optional parentheses after the variables, in both functions:
  \<open>(evaluation, operations)\<close>.
\<close>

definition calculusArguments ::
  "exprParser \<Rightarrow> nat \<Rightarrow> pstate \<Rightarrow> (node list option \<times> node list option) result" where
  "calculusArguments pe fuel st =
     (if tvalue (current st) = ''('' then
        (case parseCalculusParentheses pe fuel st of
           Inl e \<Rightarrow> Inl e
         | Inr ((isEvaluation, content), st1) \<Rightarrow>
             if isEvaluation then Inr ((Some content, None), st1)
             else Inr ((None, Some content), st1))
      else Inr ((None, None), st))"

definition parseDerivative :: "exprParser \<Rightarrow> nat \<Rightarrow> node \<Rightarrow> pstate \<Rightarrow> node result" where
  "parseDerivative pe fuel left st =
     (case quotesLoop fuel 0 st of
        Inl e \<Rightarrow> Inl e
      | Inr (order, st1) \<Rightarrow>
          (case bracketVariables fuel st1 of
             Inl e \<Rightarrow> Inl e
           | Inr (variables, st2) \<Rightarrow>
               (case calculusArguments pe fuel st2 of
                  Inl e \<Rightarrow> Inl e
                | Inr ((evaluation, operations), st3) \<Rightarrow>
                    Inr (Derivative left order variables evaluation operations, st3))))"

definition parseIntegral ::
  "(string \<Rightarrow> sysinfo) \<Rightarrow> exprParser \<Rightarrow> nat \<Rightarrow> pstate \<Rightarrow> node result" where
  "parseIntegral lk pe fuel st =
     (case quotesLoop fuel 0 st of
        Inl e \<Rightarrow> Inl e
      | Inr (order, st1) \<Rightarrow>
          if ttype (current st1) = TIdentifier then
            (let func = (if tkind (current st1) = ''System''
                         then SystemIdentifier (tvalue (current st1)) (lk (tvalue (current st1)))
                         else UserIdentifier (tvalue (current st1)))
             in case bracketVariables fuel (advance st1) of
                  Inl e \<Rightarrow> Inl e
                | Inr (variables, st2) \<Rightarrow>
                    (case calculusArguments pe fuel st2 of
                       Inl e \<Rightarrow> Inl e
                     | Inr ((evaluation, operations), st3) \<Rightarrow>
                         Inr (Integral func order variables evaluation operations, st3)))
          else Inl ExpectedFunctionName)"

section \<open>The expression parser\<close>

text \<open>\<^verbatim>\<open>parsePrefix\<close>.\<close>

definition parsePrefix ::
  "(string \<Rightarrow> sysinfo) \<Rightarrow> exprParser \<Rightarrow> nat \<Rightarrow> pstate \<Rightarrow> node result" where
  "parsePrefix lk pe fuel st =
     (let token = current st in
      case ttype token of
        TNumber \<Rightarrow> Inr (Number (tvalue token), advance st)
      | TString \<Rightarrow>
          (if tkind token = ''backtick'' then
             (case parseEmbeddedLanguage (tvalue token) of
                Inl e \<Rightarrow> Inl e
              | Inr embedded \<Rightarrow> Inr (embedded, advance st))
           else Inr (String (tvalue token) (tkind token), advance st))
      | TIdentifier \<Rightarrow>
          (if tkind token = ''System''
           then Inr (SystemIdentifier (tvalue token) (lk (tvalue token)), advance st)
           else Inr (UserIdentifier (tvalue token), advance st))
      | TPlaceHolder \<Rightarrow> Inr (PlaceHolder (tplace token), advance st)
      | TSymbol \<Rightarrow>
          (if tvalue token = ''('' then parseGrouping pe fuel st
           else if tvalue token = ''['' then parseArray pe fuel st
           else if tvalue token = ''{'' then parseBraceContainer pe fuel st
           else if tvalue token = ''{{'' then parseCodeBlock pe fuel st
           else if tvalue token = ''+'' \<or> tvalue token = ''-'' then parseUnaryOperator pe st
           else if tvalue token = prime then parseIntegral lk pe fuel st
           else if tvalue token = ''_'' then Inr (NULL, advance st)
           else Inl (UnexpectedSymbol (tvalue token)))
      | TSemicolonSequence \<Rightarrow> Inl (UnexpectedToken TSemicolonSequence)
      | TEnd \<Rightarrow> Inl (UnexpectedToken TEnd))"

text \<open>\<^verbatim>\<open>parseInfix\<close>.\<close>

definition rightPrecedence :: "symbolInfo \<Rightarrow> int" where
  "rightPrecedence info =
     (if associativity info = Some ''left'' then precedence info + 1 else precedence info)"

definition parseInfix ::
  "exprParser \<Rightarrow> nat \<Rightarrow> node \<Rightarrow> symbolInfo \<Rightarrow> pstate \<Rightarrow> node result" where
  "parseInfix pe fuel left info st =
     (let operator = current st in
      if tvalue operator = ''('' \<and> isIdentifierNode left then
        (case parseFunctionCallArgs pe fuel (advance st) of
           Inl e \<Rightarrow> Inl e
         | Inr ((pos, kw), st1) \<Rightarrow>
             if tvalue (current st1) \<noteq> '')'' then Inl ExpectedClosingParenInCall
             else Inr (FunctionCall left pos kw, advance st1))
      else if tvalue operator = ''['' \<and> stype info = ''postfix'' then
        (case pe 0 (advance st) of
           Inl e \<Rightarrow> Inl e
         | Inr (right, st1) \<Rightarrow>
             if tvalue (current st1) \<noteq> '']'' then Inl ExpectedClosingBracket
             else Inr (PropertyAccess left right, advance st1))
      else
        (case pe (rightPrecedence info) (advance st) of
           Inl e \<Rightarrow> Inl e
         | Inr (right, st1) \<Rightarrow> Inr (infixNode (tvalue operator) left right, st1)))"

text \<open>\<^verbatim>\<open>parseExpression\<close>: the loop after the prefix expression.\<close>

fun expressionLoop ::
  "(string \<Rightarrow> sysinfo) \<Rightarrow> exprParser \<Rightarrow> nat \<Rightarrow> int \<Rightarrow> node \<Rightarrow> pstate \<Rightarrow> node result" where
  "expressionLoop lk pe 0 minPrec left st = Inl OutOfFuel"
| "expressionLoop lk pe (Suc fuel) minPrec left st =
     (if ttype (current st) = TEnd then Inr (left, st)
      else if isTerminator (current st) then Inr (left, st)
      else if isCommentToken (current st) then Inr (left, st)
      else if tvalue (current st) = ''('' \<and> isIdentifierNode left then
        (case parseInfix pe fuel left (bracketInfo 120 ''postfix'') st of
           Inl e \<Rightarrow> Inl e
         | Inr (left1, st1) \<Rightarrow> expressionLoop lk pe fuel minPrec left1 st1)
      else if tvalue (current st) = prime \<and> takesDerivative left then
        (case parseDerivative pe fuel left st of
           Inl e \<Rightarrow> Inl e
         | Inr (left1, st1) \<Rightarrow> expressionLoop lk pe fuel minPrec left1 st1)
      else
        (let info = getSymbolInfo lk (current st) in
         if precedence info < minPrec then Inr (left, st)
         else if stype info = ''statement'' \<or> stype info = ''separator'' then Inr (left, st)
         else
           (case parseInfix pe fuel left info st of
              Inl e \<Rightarrow> Inl e
            | Inr (left1, st1) \<Rightarrow> expressionLoop lk pe fuel minPrec left1 st1)))"

text \<open>
  \<^verbatim>\<open>parseExpression\<close>. The bound \<open>fuel\<close> limits the depth of the calls of
  \<^verbatim>\<open>parseExpression\<close> within one another, and the number of iterations of each loop.
\<close>

primrec parseExpression :: "(string \<Rightarrow> sysinfo) \<Rightarrow> nat \<Rightarrow> exprParser" where
  "parseExpression lk 0 minPrec st = Inl OutOfFuel"
| "parseExpression lk (Suc fuel) minPrec st =
     (case parsePrefix lk (parseExpression lk fuel) fuel st of
        Inl e \<Rightarrow> Inl e
      | Inr (left, st1) \<Rightarrow>
          expressionLoop lk (parseExpression lk fuel) fuel minPrec left st1)"

section \<open>Statements\<close>

text \<open>\<^verbatim>\<open>parseStatement\<close>: \<open>None\<close> is the \<^verbatim>\<open>null\<close> it returns at the end of the tokens.\<close>

definition parseStatement :: "exprParser \<Rightarrow> pstate \<Rightarrow> node option result" where
  "parseStatement pe st =
     (if ttype (current st) = TEnd then Inr (None, st)
      else if isCommentToken (current st) then
        Inr (Some (Comment (tvalue (current st)) (tkind (current st))), advance st)
      else
        (case pe 0 st of
           Inl e \<Rightarrow> Inl e
         | Inr (expr, st1) \<Rightarrow>
             if tvalue (current st1) = '';'' then Inr (Some (Statement expr), advance st1)
             else Inr (Some expr, st1)))"

text \<open>\<^verbatim>\<open>Parser.parse\<close>, the loop over the statements.\<close>

fun parseLoop :: "exprParser \<Rightarrow> nat \<Rightarrow> node list \<Rightarrow> pstate \<Rightarrow> node list result" where
  "parseLoop pe 0 statements st = Inl OutOfFuel"
| "parseLoop pe (Suc fuel) statements st =
     (if ttype (current st) = TEnd then Inr (statements, st)
      else if isCommentToken (current st) then
        parseLoop pe fuel
          (statements @ [Comment (tvalue (current st)) (tkind (current st))]) (advance st)
      else
        (case parseStatement pe st of
           Inl e \<Rightarrow> Inl e
         | Inr (stmt, st1) \<Rightarrow>
             parseLoop pe fuel
               (case stmt of None \<Rightarrow> statements | Some s \<Rightarrow> statements @ [s]) st1))"

text \<open>The exported function \<^verbatim>\<open>parse(tokens, systemLookup)\<close>, with the bound \<open>fuel\<close>.\<close>

definition parse :: "(string \<Rightarrow> sysinfo) \<Rightarrow> nat \<Rightarrow> token list \<Rightarrow> error + node list" where
  "parse lk fuel toks =
     (case parseLoop (parseExpression lk fuel) fuel [] (initParser toks) of
        Inl e \<Rightarrow> Inl e
      | Inr (statements, st) \<Rightarrow> Inr statements)"

section \<open>Tokens for examples\<close>

text \<open>How the tokenizer's tokens look, for the concrete inputs below.\<close>

definition symbolToken :: "string \<Rightarrow> token" where
  "symbolToken v = \<lparr>ttype = TSymbol, tvalue = v, tkind = [], tplace = 0, tcount = 0\<rparr>"

definition numberToken :: "string \<Rightarrow> token" where
  "numberToken v = \<lparr>ttype = TNumber, tvalue = v, tkind = [], tplace = 0, tcount = 0\<rparr>"

definition userToken :: "string \<Rightarrow> token" where
  "userToken v = \<lparr>ttype = TIdentifier, tvalue = v, tkind = ''User'', tplace = 0, tcount = 0\<rparr>"

definition systemToken :: "string \<Rightarrow> token" where
  "systemToken v = \<lparr>ttype = TIdentifier, tvalue = v, tkind = ''System'', tplace = 0, tcount = 0\<rparr>"


definition placeHolderToken :: "nat \<Rightarrow> token" where
  "placeHolderToken n = \<lparr>ttype = TPlaceHolder, tvalue = [], tkind = [], tplace = n, tcount = 0\<rparr>"

definition backtickToken :: "string \<Rightarrow> token" where
  "backtickToken v = \<lparr>ttype = TString, tvalue = v, tkind = ''backtick'', tplace = 0, tcount = 0\<rparr>"

text \<open>
  Two lookup functions: one that knows no system symbol, and the one of the repository's
  tests.
\<close>

definition noSystemSymbols :: "string \<Rightarrow> sysinfo" where
  "noSystemSymbols name = SysInfo ''identifier'' None None None"

definition testSystemLookup :: "string \<Rightarrow> sysinfo" where
  "testSystemLookup name =
     (if name \<in> set [''SIN'', ''COS'', ''TAN'', ''LOG'', ''MAX'', ''MIN'']
        then SysInfo ''function'' None None None
      else if name = ''PI'' \<or> name = ''E'' then SysInfo ''constant'' None None None
      else if name = ''AND'' then SysInfo ''operator'' (Some 40) (Some ''left'') (Some ''infix'')
      else if name = ''OR'' then SysInfo ''operator'' (Some 30) (Some ''left'') (Some ''infix'')
      else if name = ''NOT'' then SysInfo ''operator'' (Some 110) None (Some ''prefix'')
      else if name = ''IN'' then SysInfo ''operator'' (Some 60) (Some ''left'') (Some ''infix'')
      else if name = ''UNION'' then SysInfo ''operator'' (Some 50) (Some ''left'') (Some ''infix'')
      else SysInfo ''identifier'' None None None)"










definition metadataSemicolonExample :: "token list" where
  "metadataSemicolonExample =
     [symbolToken ''['', userToken ''a'', symbolToken '':='', numberToken ''1'', symbolToken '','',
      symbolToken '';'', symbolToken '']'']"





text \<open>The tokens of \<^verbatim>\<open>{{ a := {{ 3; b }}; c }};\<close>.\<close>

definition codeBlockExample :: "token list" where
  "codeBlockExample =
     [symbolToken ''{{'', userToken ''a'', symbolToken '':='', symbolToken ''{{'', numberToken ''3'',
      symbolToken '';'', userToken ''b'', symbolToken ''}}'', symbolToken '';'', userToken ''c'',
      symbolToken ''}}'', symbolToken '';'']"

text \<open>The tokens of \<^verbatim>\<open>((1,2));\<close>, of \<^verbatim>\<open>([1,2]);\<close> and of \<^verbatim>\<open>((x; n := 2) -> x);\<close>.\<close>

definition nestedTupleExample :: "token list" where
  "nestedTupleExample =
     [symbolToken ''('', symbolToken ''('', numberToken ''1'', symbolToken '','', numberToken ''2'',
      symbolToken '')'', symbolToken '')'', symbolToken '';'']"

definition bracketInGroupingExample :: "token list" where
  "bracketInGroupingExample =
     [symbolToken ''('', symbolToken ''['', numberToken ''1'', symbolToken '','', numberToken ''2'',
      symbolToken '']'', symbolToken '')'', symbolToken '';'']"

definition nestedLambdaExample :: "token list" where
  "nestedLambdaExample =
     [symbolToken ''('', symbolToken ''('', userToken ''x'', symbolToken '';'', userToken ''n'',
      symbolToken '':='', numberToken ''2'', symbolToken '')'', symbolToken ''->'', userToken ''x'',
      symbolToken '')'', symbolToken '';'']"

section \<open>Notions of the specification\<close>

text \<open>
  The left operands that the specification lists for the lowering of \<^verbatim>\<open>->\<close>: a
  grouping of a parameter list, of a user identifier or of a \<^verbatim>\<open>?\<close> operation, or a
  tuple of user identifiers.
\<close>

fun isUserIdentifier :: "node \<Rightarrow> bool" where
  "isUserIdentifier (UserIdentifier n) = True"
| "isUserIdentifier element = False"

fun spec_lambdaLeft :: "node \<Rightarrow> bool" where
  "spec_lambdaLeft (Grouping (ParameterList ps)) = True"
| "spec_lambdaLeft (Grouping (UserIdentifier n)) = True"
| "spec_lambdaLeft (Grouping (BinaryOperation opr l r)) = (opr = ''?'')"
| "spec_lambdaLeft (Tuple es) = list_all isUserIdentifier es"
| "spec_lambdaLeft left = False"


text \<open>The nodes that a parameter specification holds.\<close>

primrec pnameNodes :: "'n pname \<Rightarrow> 'n list" where
  "pnameNodes NoName = []"
| "pnameNodes (Name s) = []"
| "pnameNodes (NameNode n) = [n]"

definition paramNodes :: "'n param \<Rightarrow> 'n list" where
  "paramNodes p = pnameNodes (pname p) @ (case defaultValue p of None \<Rightarrow> [] | Some d \<Rightarrow> [d])"

definition paramsNodes :: "'n params \<Rightarrow> 'n list" where
  "paramsNodes ps =
     concat (map paramNodes (positional ps)) @ concat (map paramNodes (keyword ps))
     @ (case conditionals ps of None \<Rightarrow> [] | Some cs \<Rightarrow> cs) @ map snd (metadata ps)"

definition allTrue :: "bool list \<Rightarrow> bool" where
  "allTrue bs = list_all (\<lambda>b. b) bs"

definition allTrueOption :: "bool list option \<Rightarrow> bool" where
  "allTrueOption bs = (case bs of None \<Rightarrow> True | Some xs \<Rightarrow> allTrue xs)"

text \<open>No \<open>Statement\<close> node occurs anywhere in a node.\<close>

primrec noStatement :: "node \<Rightarrow> bool" where
  "noStatement (Number v) = True"
| "noStatement (String v k) = True"
| "noStatement (UserIdentifier n) = True"
| "noStatement (SystemIdentifier n i) = True"
| "noStatement (PlaceHolder p) = True"
| "noStatement NULL = True"
| "noStatement (UnaryOperation opr e) = noStatement e"
| "noStatement (BinaryOperation opr l r) = (noStatement l \<and> noStatement r)"
| "noStatement (Grouping e) = noStatement e"
| "noStatement (Tuple es) = allTrue (map noStatement es)"
| "noStatement (Array es) = allTrue (map noStatement es)"
| "noStatement (Set es) = allTrue (map noStatement es)"
| "noStatement (Map es) = allTrue (map noStatement es)"
| "noStatement (System es) = allTrue (map noStatement es)"
| "noStatement (Matrix rows) = allTrue (map allTrue (map (map noStatement) rows))"
| "noStatement (Tensor rows d) =
     allTrue (map (\<lambda>r. allTrue (fst r)) (map (map_prod (map noStatement) id) rows))"
| "noStatement (WithMetadata p m) =
     (noStatement p \<and> allTrue (map snd (map (map_prod id noStatement) m)))"
| "noStatement (CodeBlock es) = allTrue (map noStatement es)"
| "noStatement (FunctionCall f pos kw) =
     (noStatement f \<and> allTrue (map noStatement pos)
      \<and> allTrue (map snd (map (map_prod id noStatement) kw)))"
| "noStatement (FunctionDefinition nm ps b) =
     (noStatement nm \<and> allTrue (paramsNodes (map_params noStatement ps)) \<and> noStatement b)"
| "noStatement (FunctionLambda ps b) =
     (allTrue (paramsNodes (map_params noStatement ps)) \<and> noStatement b)"
| "noStatement (PatternMatchingFunction nm ps pats m) =
     (noStatement nm \<and> allTrue (paramsNodes (map_params noStatement ps))
      \<and> allTrue (map (\<lambda>p. allTrue (paramsNodes (fst p)) \<and> snd p)
                  (map (map_prod (map_params noStatement) noStatement) pats))
      \<and> allTrue (map snd (map (map_prod id noStatement) m)))"
| "noStatement (ParameterList ps) = allTrue (paramsNodes (map_params noStatement ps))"
| "noStatement (Pipe l r) = (noStatement l \<and> noStatement r)"
| "noStatement (ExplicitPipe l r) = (noStatement l \<and> noStatement r)"
| "noStatement (MapPipe l r) = (noStatement l \<and> noStatement r)"
| "noStatement (Filter l r) = (noStatement l \<and> noStatement r)"
| "noStatement (Reduce l r) = (noStatement l \<and> noStatement r)"
| "noStatement (PropertyAccess l r) = (noStatement l \<and> noStatement r)"
| "noStatement (Derivative f n vs ev ops) =
     (noStatement f \<and> allTrueOption (map_option (map noStatement) ev)
      \<and> allTrueOption (map_option (map noStatement) ops))"
| "noStatement (Integral f n vs ev ops) =
     (noStatement f \<and> allTrueOption (map_option (map noStatement) ev)
      \<and> allTrueOption (map_option (map noStatement) ops))"
| "noStatement (EmbeddedLanguage l c b) = True"
| "noStatement (Statement e) = False"
| "noStatement (Comment v k) = True"

text \<open>
  What the top-level loop may emit: a \<open>Statement\<close> around a node without
  \<open>Statement\<close>, or a node without \<open>Statement\<close> (a \<open>Comment\<close> is one).
\<close>

fun topLevelNode :: "node \<Rightarrow> bool" where
  "topLevelNode (Statement e) = noStatement e"
| "topLevelNode n = noStatement n"

section \<open>Invariants of the loops\<close>





text \<open>
  Freedom from \<open>Statement\<close> nodes, for the values that the parsing functions pass
  around: parameters, parameter specifications, a parser of expressions all of whose
  results are free of them, and the variables of the loops.
\<close>

definition cleanParam :: "node param \<Rightarrow> bool" where
  "cleanParam p = (\<forall>e \<in> set (paramNodes p). noStatement e)"

definition cleanParams :: "node params \<Rightarrow> bool" where
  "cleanParams ps = (\<forall>e \<in> set (paramsNodes ps). noStatement e)"

definition cleanParser :: "exprParser \<Rightarrow> bool" where
  "cleanParser pe = (\<forall>minPrec st n st'. pe minPrec st = Inr (n, st') \<longrightarrow> noStatement n)"

definition cleanParamsAcc :: "paramsAcc \<Rightarrow> bool" where
  "cleanParamsAcc acc =
     (case acc of (pos, kw, conds) \<Rightarrow>
        (\<forall>p \<in> set pos. cleanParam p) \<and> (\<forall>p \<in> set kw. cleanParam p)
        \<and> (\<forall>c \<in> set conds. noStatement c))"

definition cleanCallArgs :: "callArgs \<Rightarrow> bool" where
  "cleanCallArgs args =
     ((\<forall>e \<in> set (fst args). noStatement e) \<and> (\<forall>kv \<in> set (snd args). noStatement (snd kv)))"

definition cleanArrayState :: "arrayState \<Rightarrow> bool" where
  "cleanArrayState a =
     ((\<forall>e \<in> set (arrElements a). noStatement e)
      \<and> (\<forall>e \<in> set_option (primaryElement a). noStatement e)
      \<and> (\<forall>kv \<in> set (metadataMap a). noStatement (snd kv))
      \<and> (\<forall>r \<in> set (matrixStructure a). \<forall>e \<in> set (fst r). noStatement e)
      \<and> (\<forall>e \<in> set (currentRow a). noStatement e))"

section \<open>Facts about the string functions\<close>

lemma indexOf_range: "indexOf s c = -1 \<or> (0 \<le> indexOf s c \<and> indexOf s c < int (length s))"
  by (induction s) (auto simp: Let_def)

lemma indexOf_absent: "indexOf s c = -1 \<longleftrightarrow> c \<notin> set s"
proof (induction s)
  case Nil
  show ?case by simp
next
  case (Cons x xs)
  with indexOf_range[of xs c] show ?case by (auto simp: Let_def)
qed

lemma indexOf_first:
  "indexOf s c \<noteq> -1 \<Longrightarrow>
     s ! nat (indexOf s c) = c \<and> (\<forall>j < nat (indexOf s c). s ! j \<noteq> c)"
proof (induction s)
  case Nil
  then show ?case by simp
next
  case (Cons x xs)
  show ?case
  proof (cases "x = c")
    case True
    then show ?thesis by simp
  next
    case False
    with Cons.prems have ne: "indexOf xs c \<noteq> -1" by (auto simp: Let_def split: if_splits)
    with indexOf_range[of xs c] have nn: "0 \<le> indexOf xs c" by auto
    from False ne have eq: "indexOf (x # xs) c = indexOf xs c + 1" by (simp add: Let_def)
    have n: "nat (indexOf xs c + 1) = Suc (nat (indexOf xs c))" using nn by simp
    from Cons.IH[OF ne] show ?thesis unfolding eq n using False
      by (auto simp: nth_Cons split: nat.splits)
  qed
qed

lemma matchParen_range:
  "0 \<le> i \<Longrightarrow> matchParen xs i c = -1 \<or> (i \<le> matchParen xs i c \<and> matchParen xs i c < i + int (length xs))"
proof (induction xs i c rule: matchParen.induct)
  case (1 i parenCount)
  then show ?case by simp
next
  case (2 ch rest i parenCount)
  then show ?case by (fastforce split: if_splits)
qed

lemma sliceFrom_nonneg: "0 \<le> a \<Longrightarrow> sliceFrom s a = drop (nat a) s"
  by (auto simp: sliceFrom_def sliceIndex_def min_def)

lemma slice_prefix: "0 \<le> b \<Longrightarrow> slice s 0 b = take (nat b) s"
  by (auto simp: slice_def sliceIndex_def min_def)

lemma findParenEnd_range:
  "0 \<le> i \<Longrightarrow> findParenEnd s i = -1 \<or> (i \<le> findParenEnd s i \<and> findParenEnd s i < int (length s))"
  using matchParen_range[of i "drop (nat i) s" 0]
  by (auto simp: findParenEnd_def sliceFrom_nonneg)


section \<open>The scenarios of the specification\<close>

text \<open>
  The end-to-end scenarios that the specification lists, run on the model: the results
  are the shapes that the specification and the tests of the repository expect.
\<close>

lemma scenario_function_definition:
  "parse testSystemLookup 8
     [userToken ''f'', symbolToken ''('', userToken ''x'', symbolToken '')'', symbolToken '':->'',
      userToken ''x'', symbolToken ''+'', numberToken ''1'', symbolToken '';'']
   = Inr [Statement (FunctionDefinition (UserIdentifier ''f'')
            (Params [Param (Name ''x'') None] [] (Some []) [])
            (BinaryOperation ''+'' (UserIdentifier ''x'') (Number ''1'')))]"
  by code_simp

lemma scenario_lambda_with_keyword:
  "parse testSystemLookup 8
     [userToken ''f'', symbolToken '':='', symbolToken ''('', userToken ''x'', symbolToken '','',
      userToken ''n'', symbolToken '':='', numberToken ''5'', symbolToken '';'', userToken ''a'',
      symbolToken '':='', numberToken ''0'', symbolToken '')'', symbolToken ''->'',
      symbolToken ''('', userToken ''x'', symbolToken ''-'', userToken ''a'', symbolToken '')'',
      symbolToken ''^'', userToken ''n'', symbolToken ''+'', numberToken ''1'', symbolToken '';'']
   = Inr [Statement (BinaryOperation '':='' (UserIdentifier ''f'')
            (FunctionLambda
               (Params [Param (Name ''x'') None, Param (Name ''n'') (Some (Number ''5''))]
                  [Param (Name ''a'') (Some (Number ''0''))] (Some []) [])
               (BinaryOperation ''+''
                  (BinaryOperation ''^''
                     (Grouping (BinaryOperation ''-'' (UserIdentifier ''x'') (UserIdentifier ''a'')))
                     (UserIdentifier ''n''))
                  (Number ''1''))))]"
  by code_simp

lemma scenario_pattern_matching:
  "parse testSystemLookup 8
     [userToken ''g'', symbolToken '':=>'', symbolToken ''['', symbolToken ''('', userToken ''x'',
      symbolToken ''?'', userToken ''x'', symbolToken ''<'', numberToken ''0'', symbolToken '')'',
      symbolToken ''->'', symbolToken ''-'', userToken ''x'', symbolToken '','', symbolToken ''('',
      userToken ''x'', symbolToken '')'', symbolToken ''->'', userToken ''x'', symbolToken '']'',
      symbolToken '';'']
   = Inr [Statement (PatternMatchingFunction (UserIdentifier ''g'') (Params [] [] (Some []) [])
            [(Params [Param (Name ''x'') None] []
                (Some [BinaryOperation ''<'' (UserIdentifier ''x'') (Number ''0'')]) [],
              UnaryOperation ''-'' (UserIdentifier ''x'')),
             (Params [Param (Name ''x'') None] [] (Some []) [], UserIdentifier ''x'')]
            [])]"
  by code_simp

lemma scenario_matrix:
  "parse testSystemLookup 8
     [symbolToken ''['', numberToken ''1'', symbolToken '','', numberToken ''2'', symbolToken '';'',
      numberToken ''3'', symbolToken '','', numberToken ''4'', symbolToken '']'', symbolToken '';'']
   = Inr [Statement (Matrix [[Number ''1'', Number ''2''], [Number ''3'', Number ''4'']])]"
  by code_simp

lemma scenario_set_map_system:
  "parse testSystemLookup 8
     [symbolToken ''{'', numberToken ''3'', symbolToken '','', numberToken ''5'', symbolToken '','',
      numberToken ''6'', symbolToken ''}'', symbolToken '';'']
   = Inr [Statement (Set [Number ''3'', Number ''5'', Number ''6''])]"
  "parse testSystemLookup 8
     [symbolToken ''{'', userToken ''a'', symbolToken '':='', numberToken ''4'', symbolToken '','',
      userToken ''b'', symbolToken '':='', numberToken ''5'', symbolToken ''}'', symbolToken '';'']
   = Inr [Statement (Map [BinaryOperation '':='' (UserIdentifier ''a'') (Number ''4''),
                          BinaryOperation '':='' (UserIdentifier ''b'') (Number ''5'')])]"
  "parse testSystemLookup 8
     [symbolToken ''{'', userToken ''x'', symbolToken '':=:'', numberToken ''3'', symbolToken ''*'',
      userToken ''x'', symbolToken ''+'', numberToken ''2'', symbolToken '';'', userToken ''y'',
      symbolToken '':=:'', userToken ''x'', symbolToken ''}'', symbolToken '';'']
   = Inr [Statement (System
            [BinaryOperation '':=:'' (UserIdentifier ''x'')
               (BinaryOperation ''+'' (BinaryOperation ''*'' (Number ''3'') (UserIdentifier ''x''))
                  (Number ''2'')),
             BinaryOperation '':=:'' (UserIdentifier ''y'') (UserIdentifier ''x'')])]"
  by code_simp+

lemma scenario_nested_code_block:
  "parse testSystemLookup 8
     [symbolToken ''{{'', userToken ''a'', symbolToken '':='', symbolToken ''{{'', numberToken ''3'',
      symbolToken ''}}'', symbolToken ''}}'', symbolToken '';'']
   = Inr [Statement (CodeBlock
            [BinaryOperation '':='' (UserIdentifier ''a'') (CodeBlock [Number ''3''])])]"
  by code_simp

lemma scenario_explicit_pipe:
  "parse testSystemLookup 8
     [symbolToken ''('', numberToken ''3'', symbolToken '','', numberToken ''4'', symbolToken '')'',
      symbolToken ''||>'', userToken ''f'', symbolToken ''('', placeHolderToken 2, symbolToken '','',
      placeHolderToken 1, symbolToken '')'', symbolToken '';'']
   = Inr [Statement (ExplicitPipe (Tuple [Number ''3'', Number ''4''])
            (FunctionCall (UserIdentifier ''f'') [PlaceHolder 2, PlaceHolder 1] []))]"
  by code_simp

lemma scenario_embedded_language:
  "parse testSystemLookup 8 [backtickToken ''P(x):x^2 + 3x + 5'', symbolToken '';'']
   = Inr [Statement (EmbeddedLanguage (Some ''P'') (Some ''x'') ''x^2 + 3x + 5'')]"
  by code_simp

lemma scenario_errors:
  "parse testSystemLookup 8
     [symbolToken ''('', numberToken ''3'', symbolToken '','', symbolToken '','', numberToken ''2'',
      symbolToken '')'', symbolToken '';'']
   = Inl ConsecutiveCommas"
  "parse testSystemLookup 8
     [symbolToken ''{'', symbolToken ''('', userToken ''x'', symbolToken '')'', symbolToken '':=>'',
      userToken ''x'', symbolToken ''+'', numberToken ''1'', symbolToken '','', symbolToken ''('',
      userToken ''y'', symbolToken '')'', symbolToken '':=>'', userToken ''y'', symbolToken ''*'',
      numberToken ''2'', symbolToken ''}'', symbolToken '';'']
   = Inl PatternMatchingInBraces"
  by code_simp+

lemma scenario_system_operator_and_call:
  "parse testSystemLookup 8
     [userToken ''a'', systemToken ''AND'', systemToken ''SIN'', symbolToken ''('', userToken ''x'',
      symbolToken '';'', userToken ''n'', symbolToken '')'', symbolToken ''+'', numberToken ''1'']
   = Inr [BinaryOperation ''AND'' (UserIdentifier ''a'')
            (BinaryOperation ''+''
               (FunctionCall (SystemIdentifier ''SIN'' (SysInfo ''function'' None None None))
                  [UserIdentifier ''x''] [(''n'', UserIdentifier ''n'')])
               (Number ''1''))]"
  by code_simp


section \<open>Facts about \<open>parseInfix\<close>\<close>

lemma parseInfix_right_operand:
  assumes "tvalue (current st) \<noteq> ''(''" and "tvalue (current st) \<noteq> ''[''"
    and "pe (rightPrecedence info) (advance st) = Inr (right, st1)"
  shows "parseInfix pe fuel left info st = Inr (infixNode (tvalue (current st)) left right, st1)"
  using assms by (simp add: parseInfix_def Let_def)


section \<open>C1: the lowering of \<^verbatim>\<open>->\<close>\<close>

lemma arrowLambda_Tuple_identifiers:
  "concat (map (userIdentifierParam \<circ> UserIdentifier) ns) = map (\<lambda>n. Param (Name n) None) ns"
  by (induction ns) auto

lemma arrowLambda_other:
  "(\<forall>e. left \<noteq> Grouping e) \<Longrightarrow> (\<forall>es. left \<noteq> Tuple es) \<Longrightarrow>
     arrowLambda left right = BinaryOperation ''->'' left right"
  by (cases left) auto

lemma arrowLambda_Grouping_other:
  "(\<forall>ps. e \<noteq> ParameterList ps) \<Longrightarrow> (\<forall>n. e \<noteq> UserIdentifier n) \<Longrightarrow>
   (\<forall>l c. e \<noteq> BinaryOperation ''?'' l c) \<Longrightarrow>
     arrowLambda (Grouping e) right = FunctionLambda emptyParams right"
  by (cases e) auto

text \<open>
  C1, as the code has it. An infix \<^verbatim>\<open>->\<close> whose right operand parses to \<open>right\<close> yields
  \<open>arrowLambda left right\<close>. This is a \<open>FunctionLambda\<close> with body \<open>right\<close> whenever
  \<open>left\<close> is a \<open>Grouping\<close> or a \<open>Tuple\<close>: with the parameters of the list for a
  grouped \<open>ParameterList\<close>, one positional parameter for a grouped user identifier, one
  positional parameter and one conditional for a grouped \<^verbatim>\<open>?\<close> operation, no parameter
  for any other grouped expression, and for a tuple one positional parameter for each
  element that is a user identifier (the other elements are skipped). Only a left operand
  that is neither a \<open>Grouping\<close> nor a \<open>Tuple\<close> yields the plain \<open>BinaryOperation\<close>
  with operator \<^verbatim>\<open>->\<close>.
\<close>

theorem arrow_lowering:
  assumes "tvalue (current st) = ''->''"
    and "pe (rightPrecedence info) (advance st) = Inr (right, st')"
  shows "parseInfix pe fuel left info st = Inr (arrowLambda left right, st')
    \<and> (\<forall>ps. left = Grouping (ParameterList ps) \<longrightarrow> arrowLambda left right = FunctionLambda ps right)
    \<and> (\<forall>n. left = Grouping (UserIdentifier n) \<longrightarrow>
          arrowLambda left right = FunctionLambda (Params [Param (Name n) None] [] (Some []) []) right)
    \<and> (\<forall>l c. left = Grouping (BinaryOperation ''?'' l c) \<longrightarrow>
          arrowLambda left right =
            FunctionLambda (Params [Param (nameOrValue l) None] [] (Some [c]) []) right)
    \<and> (\<forall>e. left = Grouping e \<and> (\<forall>ps. e \<noteq> ParameterList ps) \<and> (\<forall>n. e \<noteq> UserIdentifier n)
            \<and> (\<forall>l c. e \<noteq> BinaryOperation ''?'' l c) \<longrightarrow>
          arrowLambda left right = FunctionLambda (Params [] [] (Some []) []) right)
    \<and> (\<forall>ns. left = Tuple (map UserIdentifier ns) \<longrightarrow>
          arrowLambda left right =
            FunctionLambda (Params (map (\<lambda>n. Param (Name n) None) ns) [] (Some []) []) right)
    \<and> (\<forall>es. left = Tuple es \<longrightarrow>
          arrowLambda left right =
            FunctionLambda (Params (concat (map userIdentifierParam es)) [] (Some []) []) right)
    \<and> ((\<forall>e. left \<noteq> Grouping e) \<and> (\<forall>es. left \<noteq> Tuple es) \<longrightarrow>
          arrowLambda left right = BinaryOperation ''->'' left right)"
proof -
  have 1: "parseInfix pe fuel left info st = Inr (arrowLambda left right, st')"
    using parseInfix_right_operand[of st pe info right st' fuel left] assms
    by (simp add: infixNode_def)
  have 5: "\<forall>e. left = Grouping e \<and> (\<forall>ps. e \<noteq> ParameterList ps) \<and> (\<forall>n. e \<noteq> UserIdentifier n)
            \<and> (\<forall>l c. e \<noteq> BinaryOperation ''?'' l c) \<longrightarrow>
          arrowLambda left right = FunctionLambda (Params [] [] (Some []) []) right"
    using arrowLambda_Grouping_other by (auto simp: emptyParams_def)
  have 6: "\<forall>ns. left = Tuple (map UserIdentifier ns) \<longrightarrow>
          arrowLambda left right =
            FunctionLambda (Params (map (\<lambda>n. Param (Name n) None) ns) [] (Some []) []) right"
    by (simp add: arrowLambda_Tuple_identifiers)
  have 8: "(\<forall>e. left \<noteq> Grouping e) \<and> (\<forall>es. left \<noteq> Tuple es) \<longrightarrow>
          arrowLambda left right = BinaryOperation ''->'' left right"
    using arrowLambda_other by blast
  show ?thesis using 1 5 6 8 by simp
qed

theorem arrow_lowering_witness:
  "parseInfix (parseExpression noSystemSymbols 3) 3 (Grouping (UserIdentifier ''a'')) (infixRight 25)
     (advance (advance (advance (initParser
        [symbolToken ''('', userToken ''a'', symbolToken '')'', symbolToken ''->'', userToken ''b'']))))
   = Inr (FunctionLambda (Params [Param (Name ''a'') None] [] (Some []) []) (UserIdentifier ''b''),
          advance (advance (advance (advance (advance (initParser
        [symbolToken ''('', userToken ''a'', symbolToken '')'', symbolToken ''->'', userToken ''b'']))))))"
proof -
  let ?st = "advance (advance (advance (initParser
        [symbolToken ''('', userToken ''a'', symbolToken '')'', symbolToken ''->'', userToken ''b''])))"
  have c: "tvalue (current ?st) = ''->''" by code_simp
  have r: "parseExpression noSystemSymbols 3 (rightPrecedence (infixRight 25)) (advance ?st)
     = Inr (UserIdentifier ''b'', advance (advance ?st))" by code_simp
  from arrow_lowering[where st = ?st and pe = "parseExpression noSystemSymbols 3"
      and info = "infixRight 25" and right = "UserIdentifier ''b''" and st' = "advance (advance ?st)"
      and fuel = 3 and left = "Grouping (UserIdentifier ''a'')", OF c r]
  show ?thesis by simp
qed

text \<open>
  C1 as stated fails: \<^verbatim>\<open>(3) -> x\<close> has a left operand of none of the four shapes and is
  lowered to a \<open>FunctionLambda\<close> without parameters, not to a \<open>BinaryOperation\<close>.
\<close>

theorem arrow_lowering_counterexample:
  "\<not> spec_lambdaLeft (Grouping (Number ''3''))
   \<and> arrowLambda (Grouping (Number ''3'')) (UserIdentifier ''x'')
       = FunctionLambda (Params [] [] (Some []) []) (UserIdentifier ''x'')
   \<and> parse noSystemSymbols 5
       [symbolToken ''('', numberToken ''3'', symbolToken '')'', symbolToken ''->'', userToken ''x'']
       = Inr [FunctionLambda (Params [] [] (Some []) []) (UserIdentifier ''x'')]"
  by code_simp


section \<open>Facts about \<open>parseMatrixOrArray\<close>\<close>


lemma arrayElement_regular:
  "\<not> isAssignment element \<Longrightarrow>
   arrayElement a element =
     (if hasMetadata a then Inl CannotMixArrayMetadata
      else
        Inr (a\<lparr>nonMetadataCount := nonMetadataCount a + 1,
               primaryElement :=
                 (if nonMetadataCount a + 1 = 1 then Some element else primaryElement a),
               arrElements := arrElements a @ [element],
               currentRow := currentRow a @ [element]\<rparr>))"
  by (cases element) auto

lemma arrayElement_metadata:
  "isAssignment element \<Longrightarrow> \<exists>l r. element = BinaryOperation '':='' l r"
  by (cases element) auto










section \<open>C3: matrices and tensors\<close>




section \<open>C4: systems of equations in braces\<close>










section \<open>C5: metadata in square brackets\<close>




text \<open>
  A semicolon that follows the comma after a metadata element is taken by the branch for
  leading semicolons, which does not look at \<^verbatim>\<open>hasMetadata\<close>: \<^verbatim>\<open>[a := 1, ;]\<close> is
  accepted.
\<close>

lemma metadata_then_semicolon_accepted:
  "parse noSystemSymbols 5 metadataSemicolonExample
     = Inr [WithMetadata (Array []) [(''a'', Number ''1'')]]"
  by code_simp


section \<open>C2: the scan ahead after an opening parenthesis\<close>

text \<open>
  C2 at inputs where the code departs from it. The scan of \<^verbatim>\<open>parseGrouping\<close> starts at
  \<^verbatim>\<open>this.position\<close>, the token after the current one, so the first token inside the
  parentheses is not scanned, and it counts only parentheses as nesting. In
  \<^verbatim>\<open>((1,2))\<close> the inner \<^verbatim>\<open>(\<close> is skipped, the inner comma is seen at depth zero and
  the outer pair becomes a one-element \<open>Tuple\<close> instead of a \<open>Grouping\<close>; in
  \<^verbatim>\<open>([1,2])\<close> the comma inside the square brackets does the same; in
  \<^verbatim>\<open>((x; n := 2) -> x)\<close> the inner semicolon makes the outer pair a parameter list,
  which fails.
\<close>

theorem grouping_scan_ignores_nesting:
  "scanGrouping (drop 2 nestedTupleExample) 0 False = (False, True)
   \<and> parse noSystemSymbols 6 nestedTupleExample
       = Inr [Statement (Tuple [Tuple [Number ''1'', Number ''2'']])]
   \<and> parse noSystemSymbols 6 bracketInGroupingExample
       = Inr [Statement (Tuple [Array [Number ''1'', Number ''2'']])]
   \<and> parse noSystemSymbols 6 nestedLambdaExample = Inl ExpectedParameterName"
  by code_simp

section \<open>C7: keyword-only parameters have default values\<close>








section \<open>C9: entries of a pattern array that are no lambdas\<close>








section \<open>C10: \<open>Statement\<close> nodes occur at top level only\<close>

lemma allTrue_Nil [simp]: "allTrue []"
  by (simp add: allTrue_def)

lemma allTrue_Cons [simp]: "allTrue (b # bs) = (b \<and> allTrue bs)"
  by (simp add: allTrue_def)

lemma allTrue_append [simp]: "allTrue (bs @ cs) = (allTrue bs \<and> allTrue cs)"
  by (simp add: allTrue_def)

lemma allTrue_map [simp]: "allTrue (map f xs) = (\<forall>x \<in> set xs. f x)"
  by (simp add: allTrue_def list_all_iff)

lemma allTrueOption_map [simp]:
  "allTrueOption (map_option (map f) xs) = (\<forall>ys \<in> set_option xs. \<forall>y \<in> set ys. f y)"
  by (cases xs) (simp_all add: allTrueOption_def)

lemma pnameNodes_map: "pnameNodes (map_pname f n) = map f (pnameNodes n)"
  by (cases n) simp_all

lemma paramNodes_map: "paramNodes (map_param f p) = map f (paramNodes p)"
  by (cases p) (simp add: paramNodes_def pnameNodes_map split: option.splits)

lemma paramsNodes_map: "paramsNodes (map_params f ps) = map f (paramsNodes ps)"
  by (cases ps) (simp add: paramsNodes_def paramNodes_map map_concat o_def split: option.splits)

lemma allTrue_paramsNodes [simp]:
  "allTrue (paramsNodes (map_params noStatement ps)) = cleanParams ps"
  by (simp add: paramsNodes_map cleanParams_def)

lemma cleanParams_Params [simp]:
  "cleanParams (Params pos kw conds md) =
     ((\<forall>p \<in> set pos. cleanParam p) \<and> (\<forall>p \<in> set kw. cleanParam p)
      \<and> (\<forall>cs \<in> set_option conds. \<forall>c \<in> set cs. noStatement c)
      \<and> (\<forall>kv \<in> set md. noStatement (snd kv)))"
  by (auto simp: cleanParams_def cleanParam_def paramsNodes_def split: option.splits)

lemma cleanParam_Param [simp]:
  "cleanParam (Param n d) =
     ((\<forall>e \<in> set (pnameNodes n). noStatement e) \<and> (\<forall>e \<in> set_option d. noStatement e))"
  by (auto simp: cleanParam_def paramNodes_def split: option.splits)

lemma cleanParams_empty [simp]: "cleanParams emptyParams"
  by (simp add: emptyParams_def)

lemma noStatement_patterns [simp]:
  "allTrue (map (\<lambda>p. allTrue (paramsNodes (fst p)) \<and> snd p)
              (map (map_prod (map_params noStatement) noStatement) pats))
   = (\<forall>p \<in> set pats. cleanParams (fst p) \<and> noStatement (snd p))"
  by (auto simp: split_beta)

lemma noStatement_containers [simp]:
  "noStatement (Tuple es) = (\<forall>e \<in> set es. noStatement e)"
  "noStatement (Array es) = (\<forall>e \<in> set es. noStatement e)"
  "noStatement (Set es) = (\<forall>e \<in> set es. noStatement e)"
  "noStatement (Map es) = (\<forall>e \<in> set es. noStatement e)"
  "noStatement (System es) = (\<forall>e \<in> set es. noStatement e)"
  "noStatement (CodeBlock es) = (\<forall>e \<in> set es. noStatement e)"
  "noStatement (Matrix rows) = (\<forall>r \<in> set rows. \<forall>e \<in> set r. noStatement e)"
  "noStatement (Tensor structure d) = (\<forall>r \<in> set structure. \<forall>e \<in> set (fst r). noStatement e)"
  "noStatement (WithMetadata p m) = (noStatement p \<and> (\<forall>kv \<in> set m. noStatement (snd kv)))"
  "noStatement (FunctionCall f pos kw) =
     (noStatement f \<and> (\<forall>e \<in> set pos. noStatement e) \<and> (\<forall>kv \<in> set kw. noStatement (snd kv)))"
  "noStatement (Derivative f k vs ev ops) =
     (noStatement f \<and> (\<forall>es \<in> set_option ev. \<forall>e \<in> set es. noStatement e)
      \<and> (\<forall>es \<in> set_option ops. \<forall>e \<in> set es. noStatement e))"
  "noStatement (Integral f k vs ev ops) =
     (noStatement f \<and> (\<forall>es \<in> set_option ev. \<forall>e \<in> set es. noStatement e)
      \<and> (\<forall>es \<in> set_option ops. \<forall>e \<in> set es. noStatement e))"
  by auto

lemma noStatement_functions [simp]:
  "noStatement (FunctionDefinition nm ps b) = (noStatement nm \<and> cleanParams ps \<and> noStatement b)"
  "noStatement (FunctionLambda ps b) = (cleanParams ps \<and> noStatement b)"
  "noStatement (PatternMatchingFunction nm ps pats m) =
     (noStatement nm \<and> cleanParams ps
      \<and> (\<forall>p \<in> set pats. cleanParams (fst p) \<and> noStatement (snd p))
      \<and> (\<forall>kv \<in> set m. noStatement (snd kv)))"
  "noStatement (ParameterList ps) = cleanParams ps"
  by (simp_all del: params.map)

lemmas [simp del] = noStatement.simps(10-23) noStatement.simps(30-31)

lemma noStatement_topLevel: "noStatement n \<Longrightarrow> topLevelNode n"
  by (cases n) simp_all

lemma cleanParserD: "cleanParser pe \<Longrightarrow> pe minPrec st = Inr (n, st') \<Longrightarrow> noStatement n"
  by (auto simp: cleanParser_def)

lemma parseEmbeddedLanguage_clean: "parseEmbeddedLanguage content = Inr n \<Longrightarrow> noStatement n"
  by (auto simp: parseEmbeddedLanguage_def split: if_splits prod.splits sum.splits)

lemma parseFunctionParameter_clean:
  "cleanParser pe \<Longrightarrow> parseFunctionParameter pe k st = Inr (p, st') \<Longrightarrow> cleanParam p"
  by (auto simp: parseFunctionParameter_def Let_def split: if_splits sum.splits dest: cleanParserD)

lemma pushParam_clean:
  "cleanParamsAcc acc \<Longrightarrow> cleanParam p \<Longrightarrow> cleanParamsAcc (pushParam k p acc)"
  by (auto simp: cleanParamsAcc_def pushParam_def split: prod.splits)

lemma parseCondition_clean:
  "cleanParser pe \<Longrightarrow> cleanParamsAcc acc \<Longrightarrow> parseCondition pe acc st = Inr (acc', st') \<Longrightarrow>
     cleanParamsAcc acc'"
  by (auto simp: parseCondition_def pushCondition_def cleanParamsAcc_def
      split: if_splits sum.splits prod.splits dest: cleanParserD)

lemma parametersLoop_clean:
  "cleanParser pe \<Longrightarrow> cleanParamsAcc acc \<Longrightarrow>
   parametersLoop pe fuel k acc st = Inr (acc', st') \<Longrightarrow> cleanParamsAcc acc'"
proof (induction fuel arbitrary: k acc st)
  case 0
  then show ?case by simp
next
  case (Suc fuel)
  show ?case
  proof (cases "tvalue (current st) = '')'' \<or> ttype (current st) = TEnd")
    case True
    with Suc.prems show ?thesis by auto
  next
    case notEnd: False
    show ?thesis
    proof (cases "tvalue (current st) = '';''")
      case True
      with notEnd Suc.prems(3) have "parametersLoop pe fuel True acc (advance st) = Inr (acc', st')"
        by simp
      from Suc.IH[OF Suc.prems(1,2) this] show ?thesis .
    next
      case False
      from notEnd False Suc.prems(3) obtain p st1 where
        p: "parseFunctionParameter pe k st = Inr (p, st1)"
        by (auto split: sum.splits)
      from notEnd False Suc.prems(3) p obtain acc2 st2 where
        c: "parseCondition pe (pushParam k p acc) st1 = Inr (acc2, st2)"
        by (auto split: sum.splits)
      have c2: "cleanParamsAcc acc2"
        using parseCondition_clean[OF Suc.prems(1) _ c]
          pushParam_clean[OF Suc.prems(2) parseFunctionParameter_clean[OF Suc.prems(1) p]] by simp
      from notEnd False Suc.prems(3) p c have
        "parametersLoop pe fuel k acc2 (advance st2) = Inr (acc', st')
         \<or> acc2 = acc' \<or> parametersLoop pe fuel k acc2 st2 = Inr (acc', st')"
        by (auto split: if_splits)
      with Suc.IH[OF Suc.prems(1) c2] c2 show ?thesis by blast
    qed
  qed
qed

lemma parseFunctionParameters_clean:
  "cleanParser pe \<Longrightarrow> parseFunctionParameters pe fuel st = Inr (ps, st') \<Longrightarrow> cleanParams ps"
  using parametersLoop_clean[of pe "([], [], [])" fuel False st]
  by (auto simp: parseFunctionParameters_def cleanParamsAcc_def split: if_splits sum.splits)

lemma objectSet_clean:
  "(a, b) \<in> set (objectSet kvs k v) \<Longrightarrow> \<forall>kv \<in> set kvs. P (snd kv) \<Longrightarrow> P v \<Longrightarrow> P b"
  by (induction kvs) (fastforce split: if_splits)+

lemma parseKeywordArgument_clean:
  "cleanParser pe \<Longrightarrow> cleanCallArgs args \<Longrightarrow> parseKeywordArgument pe args st = Inr (args', st') \<Longrightarrow>
     cleanCallArgs args'"
  by (auto simp: parseKeywordArgument_def cleanCallArgs_def Let_def
      split: if_splits sum.splits dest: cleanParserD
      elim!: objectSet_clean[where P = noStatement])

lemma parsePositionalArgument_clean:
  "cleanParser pe \<Longrightarrow> cleanCallArgs args \<Longrightarrow> parsePositionalArgument pe args st = Inr (args', st') \<Longrightarrow>
     cleanCallArgs args'"
  by (auto simp: parsePositionalArgument_def cleanCallArgs_def
      split: if_splits sum.splits dest: cleanParserD)

lemma callArgsLoop_clean:
  "cleanParser pe \<Longrightarrow> cleanCallArgs args \<Longrightarrow>
   callArgsLoop pe fuel k args st = Inr (args', st') \<Longrightarrow> cleanCallArgs args'"
proof (induction fuel arbitrary: k args st)
  case 0
  then show ?case by simp
next
  case (Suc fuel)
  show ?case
  proof (cases "tvalue (current st) = '')'' \<or> ttype (current st) = TEnd")
    case True
    with Suc.prems show ?thesis by auto
  next
    case notEnd: False
    show ?thesis
    proof (cases "tvalue (current st) = '';''")
      case True
      with notEnd Suc.prems(3) have "callArgsLoop pe fuel True args (advance st) = Inr (args', st')"
        by simp
      from Suc.IH[OF Suc.prems(1,2) this] show ?thesis .
    next
      case False
      from notEnd False Suc.prems(3) obtain args1 st1 where
        a: "(if k then parseKeywordArgument pe args st else parsePositionalArgument pe args st)
              = Inr (args1, st1)"
        by (auto split: sum.splits)
      have c1: "cleanCallArgs args1"
        using a parseKeywordArgument_clean[OF Suc.prems(1,2)]
          parsePositionalArgument_clean[OF Suc.prems(1,2)] by (auto split: if_splits)
      from notEnd False Suc.prems(3) a have
        "callArgsLoop pe fuel k args1 (advance st1) = Inr (args', st')
         \<or> args1 = args' \<or> callArgsLoop pe fuel k args1 st1 = Inr (args', st')"
        by (auto split: if_splits)
      with Suc.IH[OF Suc.prems(1) c1] c1 show ?thesis by blast
    qed
  qed
qed

lemma parseFunctionCallArgs_clean:
  "cleanParser pe \<Longrightarrow> parseFunctionCallArgs pe fuel st = Inr (args, st') \<Longrightarrow> cleanCallArgs args"
  using callArgsLoop_clean[of pe "([], [])" fuel False st]
  by (auto simp: parseFunctionCallArgs_def cleanCallArgs_def split: if_splits)

lemma tupleLoop_clean:
  "cleanParser pe \<Longrightarrow> \<forall>e \<in> set es. noStatement e \<Longrightarrow>
   tupleLoop pe fuel es st = Inr (es', st') \<Longrightarrow> \<forall>e \<in> set es'. noStatement e"
proof (induction fuel arbitrary: es st)
  case 0
  then show ?case by simp
next
  case (Suc fuel)
  show ?case
  proof (cases "tvalue (current st) = '',''")
    case False
    with Suc.prems show ?thesis by auto
  next
    case True
    show ?thesis
    proof (cases "tvalue (current (advance st)) = '')''")
      case True
      with \<open>tvalue (current st) = '',''\<close> Suc.prems show ?thesis by (auto simp: Let_def)
    next
      case False
      with True Suc.prems(3) obtain element st2 where
        e: "pe 0 (advance st) = Inr (element, st2)"
        and l: "tupleLoop pe fuel (es @ [element]) st2 = Inr (es', st')"
        by (auto simp: Let_def split: if_splits sum.splits)
      from cleanParserD[OF Suc.prems(1) e] Suc.prems(2)
      have "\<forall>e \<in> set (es @ [element]). noStatement e" by simp
      from Suc.IH[OF Suc.prems(1) this l] show ?thesis .
    qed
  qed
qed

lemma parseTupleElements_clean:
  "cleanParser pe \<Longrightarrow> parseTupleElements pe fuel st = Inr (es, st') \<Longrightarrow>
     \<forall>e \<in> set es. noStatement e"
proof -
  assume c: "cleanParser pe" and p: "parseTupleElements pe fuel st = Inr (es, st')"
  from p obtain firstElement st1 where f: "pe 0 st = Inr (firstElement, st1)"
    and l: "tupleLoop pe fuel [firstElement] st1 = Inr (es, st')"
    by (auto simp: parseTupleElements_def split: sum.splits)
  from cleanParserD[OF c f] have "\<forall>e \<in> set [firstElement]. noStatement e" by simp
  from tupleLoop_clean[OF c this l] show ?thesis .
qed

lemma groupingContent_clean:
  "cleanParser pe \<Longrightarrow> groupingContent pe fuel scan st = Inr (n, st') \<Longrightarrow> noStatement n"
  by (auto simp: groupingContent_def split: prod.splits if_splits sum.splits
      dest: cleanParserD parseFunctionParameters_clean parseTupleElements_clean)

lemma parseGrouping_clean:
  "cleanParser pe \<Longrightarrow> parseGrouping pe fuel st = Inr (n, st') \<Longrightarrow> noStatement n"
  by (auto simp: parseGrouping_def Let_def split: if_splits sum.splits dest: groupingContent_clean)

lemma cleanArrayState_initial: "cleanArrayState initialArrayState"
  by (simp add: cleanArrayState_def initialArrayState_def)

lemma arrayElement_clean:
  assumes "cleanArrayState a" and "noStatement element" and "arrayElement a element = Inr a1"
  shows "cleanArrayState a1"
proof (cases "isAssignment element")
  case True
  then obtain l r where e: "element = BinaryOperation '':='' l r" using arrayElement_metadata by blast
  with assms(3) obtain key where "a1 = a\<lparr>hasMetadata := True, metadataMap := objectSet (metadataMap a) key r\<rparr>"
    by (auto split: if_splits sum.splits)
  with assms(1,2) e show ?thesis
    by (auto simp: cleanArrayState_def elim!: objectSet_clean[where P = noStatement])
next
  case False
  with assms show ?thesis
    by (auto simp: arrayElement_regular cleanArrayState_def split: if_splits)
qed

lemma arraySeparator_clean:
  "cleanArrayState a \<Longrightarrow> arraySeparator a st = Inr ((goOn, a1), st1) \<Longrightarrow> cleanArrayState a1"
  by (auto simp: arraySeparator_def cleanArrayState_def split: if_splits prod.splits)

lemma leadingSemicolons_clean:
  "cleanArrayState a \<Longrightarrow> leadingSemicolons a st = (a1, st1) \<Longrightarrow> cleanArrayState a1"
  by (auto simp: leadingSemicolons_def cleanArrayState_def split: if_splits prod.splits)

lemma arrayLoop_clean:
  "cleanParser pe \<Longrightarrow> cleanArrayState a \<Longrightarrow> arrayLoop pe fuel a st = Inr (a', st') \<Longrightarrow>
     cleanArrayState a'"
proof (induction fuel arbitrary: a st)
  case 0
  then show ?case by simp
next
  case (Suc fuel)
  show ?case
  proof (cases "isSemicolonToken (current st)")
    case True
    obtain a1 st1 where l: "leadingSemicolons a st = (a1, st1)" by (cases "leadingSemicolons a st")
    from leadingSemicolons_clean[OF Suc.prems(2) l] have i: "cleanArrayState a1" .
    from Suc.prems(3) True l have
      "arrayLoop pe fuel a1 st1 = Inr (a', st') \<or> a1 = a'" by (auto split: if_splits)
    with Suc.IH[OF Suc.prems(1) i] i show ?thesis by blast
  next
    case False
    with Suc.prems(3) obtain element st1 where e: "pe 0 st = Inr (element, st1)"
      by (auto split: sum.splits)
    with False Suc.prems(3) obtain a1 where a1: "arrayElement a element = Inr a1"
      by (auto split: sum.splits)
    with False Suc.prems(3) e obtain goOn a2 st2 where s: "arraySeparator a1 st1 = Inr ((goOn, a2), st2)"
      by (auto split: sum.splits)
    from arraySeparator_clean[OF arrayElement_clean[OF Suc.prems(2) cleanParserD[OF Suc.prems(1) e] a1] s]
    have i: "cleanArrayState a2" .
    from Suc.prems(3) False e a1 s have
      "arrayLoop pe fuel a2 st2 = Inr (a', st') \<or> a2 = a'" by (auto split: if_splits)
    with Suc.IH[OF Suc.prems(1) i] i show ?thesis by blast
  qed
qed

lemma arrayResult_clean:
  "cleanArrayState a \<Longrightarrow> arrayResult a = Inr n \<Longrightarrow> noStatement n"
  by (auto simp: arrayResult_def cleanArrayState_def buildMatrixTensor_def finalStructure_def
      split: if_splits option.splits)

lemma parseArray_clean:
  assumes "cleanParser pe" and "parseArray pe fuel st = Inr (n, st')"
  shows "noStatement n"
proof -
  from assms(2) obtain a st1 where e: "arrayElements pe fuel (advance st) = Inr (a, st1)"
    and r: "arrayResult a = Inr n"
    by (auto simp: parseArray_def parseMatrixOrArray_def split: sum.splits if_splits)
  from e have "cleanArrayState a"
    using arrayLoop_clean[OF assms(1) cleanArrayState_initial] cleanArrayState_initial
    by (auto simp: arrayElements_def split: if_splits)
  from arrayResult_clean[OF this r] show ?thesis .
qed

lemma braceLoop_clean:
  "cleanParser pe \<Longrightarrow> \<forall>e \<in> set (braceElements b). noStatement e \<Longrightarrow>
   braceLoop pe fuel b st = Inr (b', st') \<Longrightarrow> \<forall>e \<in> set (braceElements b'). noStatement e"
proof (induction fuel arbitrary: b st)
  case 0
  then show ?case by simp
next
  case (Suc fuel)
  from Suc.prems(3) obtain element st1 where e: "pe 0 st = Inr (element, st1)"
    by (auto split: sum.splits)
  with Suc.prems(3) obtain b1 where b1: "braceElement b element = Inr b1"
    by (auto split: sum.splits)
  from b1 cleanParserD[OF Suc.prems(1) e] Suc.prems(2)
  have i1: "\<forall>e \<in> set (braceElements b1). noStatement e"
    by (auto simp: braceElement_def split: if_splits)
  then have i2: "\<forall>e \<in> set (braceElements (b1\<lparr>braceHasSemicolons := True\<rparr>)). noStatement e"
    by simp
  from Suc.prems(3) e b1 have
    "braceLoop pe fuel b1 (advance st1) = Inr (b', st')
     \<or> braceLoop pe fuel (b1\<lparr>braceHasSemicolons := True\<rparr>) (advance st1) = Inr (b', st')
     \<or> b' = b1 \<or> b' = b1\<lparr>braceHasSemicolons := True\<rparr>"
    by (auto simp: Let_def split: if_splits)
  with Suc.IH[OF Suc.prems(1) i1] Suc.IH[OF Suc.prems(1) i2] i1 i2 show ?case by blast
qed

lemma braceResult_clean:
  "\<forall>e \<in> set (braceElements b). noStatement e \<Longrightarrow> braceResult b = Inr n \<Longrightarrow> noStatement n"
  by (auto simp: braceResult_def split: if_splits)

lemma parseBraceContainer_clean:
  assumes "cleanParser pe" and "parseBraceContainer pe fuel st = Inr (n, st')"
  shows "noStatement n"
proof -
  from assms(2) obtain b st1 where e: "braceElementsOf pe fuel (advance st) = Inr (b, st1)"
    and r: "braceResult b = Inr n"
    by (auto simp: parseBraceContainer_def split: sum.splits if_splits)
  from e have "\<forall>e \<in> set (braceElements b). noStatement e"
    using braceLoop_clean[OF assms(1), of initialBraceState fuel "advance st" b st1]
    by (auto simp: braceElementsOf_def initialBraceState_def split: if_splits)
  from braceResult_clean[OF this r] show ?thesis .
qed

lemma codeBlockLoop_clean:
  "cleanParser pe \<Longrightarrow> \<forall>e \<in> set es. noStatement e \<Longrightarrow>
   codeBlockLoop pe fuel es st = Inr (es', st') \<Longrightarrow> \<forall>e \<in> set es'. noStatement e"
proof (induction fuel arbitrary: es st)
  case 0
  then show ?case by simp
next
  case (Suc fuel)
  from Suc.prems(3) obtain statement st1 where e: "pe 0 st = Inr (statement, st1)"
    by (auto split: sum.splits)
  from cleanParserD[OF Suc.prems(1) e] Suc.prems(2)
  have i: "\<forall>e \<in> set (es @ [statement]). noStatement e" by simp
  from Suc.prems(3) e have
    "codeBlockLoop pe fuel (es @ [statement]) (advance st1) = Inr (es', st') \<or> es' = es @ [statement]"
    by (auto simp: Let_def split: if_splits)
  with Suc.IH[OF Suc.prems(1) i] i show ?case by blast
qed

lemma parseCodeBlock_clean:
  "cleanParser pe \<Longrightarrow> parseCodeBlock pe fuel st = Inr (n, st') \<Longrightarrow> noStatement n"
  using codeBlockLoop_clean[of pe "[]" fuel "advance st"]
  by (auto simp: parseCodeBlock_def split: sum.splits if_splits)

lemma parseUnaryOperator_clean:
  "cleanParser pe \<Longrightarrow> parseUnaryOperator pe st = Inr (n, st') \<Longrightarrow> noStatement n"
  by (auto simp: parseUnaryOperator_def split: sum.splits dest: cleanParserD)

lemma calculusLoop_clean:
  "cleanParser pe \<Longrightarrow> \<forall>e \<in> set (snd acc). noStatement e \<Longrightarrow>
   calculusLoop pe fuel acc st = Inr (acc', st') \<Longrightarrow> \<forall>e \<in> set (snd acc'). noStatement e"
proof (induction fuel arbitrary: acc st)
  case 0
  then show ?case by simp
next
  case (Suc fuel)
  show ?case
  proof (cases "tvalue (current st) \<noteq> '')'' \<and> ttype (current st) \<noteq> TEnd")
    case False
    with Suc.prems show ?thesis by auto
  next
    case True
    with Suc.prems(3) obtain expr st1 where e: "pe 0 st = Inr (expr, st1)"
      by (auto split: sum.splits)
    let ?acc1 = "(fst acc \<and> \<not> containsCalculusOperations expr, snd acc @ [expr])"
    from cleanParserD[OF Suc.prems(1) e] Suc.prems(2)
    have i: "\<forall>e \<in> set (snd ?acc1). noStatement e" by simp
    from Suc.prems(3) True e have
      "calculusLoop pe fuel ?acc1 (advance st1) = Inr (acc', st') \<or> acc' = ?acc1"
      by (auto simp: Let_def split: if_splits)
    with Suc.IH[OF Suc.prems(1) i] i show ?thesis by blast
  qed
qed

lemma calculusArguments_clean:
  assumes "cleanParser pe" and "calculusArguments pe fuel st = Inr ((ev, ops), st')"
  shows "(\<forall>es \<in> set_option ev. \<forall>e \<in> set es. noStatement e)
       \<and> (\<forall>es \<in> set_option ops. \<forall>e \<in> set es. noStatement e)"
proof (cases "tvalue (current st) = ''(''")
  case False
  with assms(2) show ?thesis by (auto simp: calculusArguments_def)
next
  case True
  with assms(2) obtain isEvaluation content st1 where
    l: "calculusLoop pe fuel (True, []) (advance st) = Inr ((isEvaluation, content), st1)"
    and r: "(ev, ops) = (if isEvaluation then (Some content, None) else (None, Some content))"
    by (auto simp: calculusArguments_def parseCalculusParentheses_def split: sum.splits if_splits)
  from calculusLoop_clean[OF assms(1) _ l] have "\<forall>e \<in> set content. noStatement e" by simp
  with r show ?thesis by (auto split: if_splits)
qed

lemma parseDerivative_clean:
  assumes "cleanParser pe" and "noStatement left"
    and "parseDerivative pe fuel left st = Inr (n, st')"
  shows "noStatement n"
proof -
  from assms(3) obtain order variables ev ops st2 where
    c: "calculusArguments pe fuel st2 = Inr ((ev, ops), st')"
    and n: "n = Derivative left order variables ev ops"
    by (auto simp: parseDerivative_def split: sum.splits)
  from calculusArguments_clean[OF assms(1) c] assms(2) n show ?thesis by simp
qed

lemma parseIntegral_clean:
  assumes "cleanParser pe" and "parseIntegral lk pe fuel st = Inr (n, st')"
  shows "noStatement n"
proof -
  from assms(2) obtain func order variables ev ops st2 where
    c: "calculusArguments pe fuel st2 = Inr ((ev, ops), st')"
    and n: "n = Integral func order variables ev ops"
    and f: "isIdentifierNode func"
    by (auto simp: parseIntegral_def Let_def split: sum.splits if_splits)
  from f have "noStatement func" by (cases func) auto
  with calculusArguments_clean[OF assms(1) c] n show ?thesis by simp
qed

lemma parsePrefix_clean:
  "cleanParser pe \<Longrightarrow> parsePrefix lk pe fuel st = Inr (n, st') \<Longrightarrow> noStatement n"
  by (auto simp: parsePrefix_def Let_def split: token_type.splits if_splits sum.splits
      dest: parseEmbeddedLanguage_clean parseGrouping_clean parseArray_clean
        parseBraceContainer_clean parseCodeBlock_clean parseUnaryOperator_clean
        parseIntegral_clean)

lemma nameOrValue_clean:
  "noStatement l \<Longrightarrow> \<forall>e \<in> set (pnameNodes (nameOrValue l)). noStatement e"
  by (cases l) auto

lemma parseParameterFromArg_clean:
  "noStatement arg \<Longrightarrow>
     cleanParam (fst (parseParameterFromArg arg))
     \<and> (\<forall>c \<in> set_option (snd (parseParameterFromArg arg)). noStatement c)"
proof (cases arg)
  case (BinaryOperation opr l r)
  assume "noStatement arg"
  with BinaryOperation have l: "noStatement l" and r: "noStatement r" by simp_all
  show ?thesis
  proof (cases r)
    case (BinaryOperation ropr rl rr)
    with r l \<open>arg = BinaryOperation opr l r\<close> nameOrValue_clean[OF l] show ?thesis by auto
  qed (use l r \<open>arg = BinaryOperation opr l r\<close> nameOrValue_clean[OF l] in auto)
qed auto

lemma keywordParam_clean:
  "noStatement (snd kv) \<Longrightarrow>
     cleanParam (fst (keywordParam kv)) \<and> (\<forall>c \<in> set_option (snd (keywordParam kv)). noStatement c)"
  by (cases kv rule: keywordParam.cases) auto

lemma conditionsOf_clean:
  "\<forall>r \<in> set rs. \<forall>c \<in> set_option (snd r). noStatement c \<Longrightarrow>
     \<forall>c \<in> set (conditionsOf rs). noStatement c"
  by (auto simp: conditionsOf_def split: option.splits)

lemma convertArgsToParams_clean:
  assumes "\<forall>e \<in> set pos. noStatement e" and "\<forall>kv \<in> set kw. noStatement (snd kv)"
  shows "cleanParams (convertArgsToParams pos kw)"
proof -
  have 1: "\<forall>p \<in> set (map fst (map parseParameterFromArg pos)). cleanParam p"
    using assms(1) parseParameterFromArg_clean by auto
  have 2: "\<forall>p \<in> set (map fst (map keywordParam kw)). cleanParam p"
    using assms(2) keywordParam_clean by auto
  have 3: "\<forall>c \<in> set (conditionsOf (map parseParameterFromArg pos)). noStatement c"
    using assms(1) parseParameterFromArg_clean by (intro conditionsOf_clean) auto
  have 4: "\<forall>c \<in> set (conditionsOf (map keywordParam kw)). noStatement c"
    using assms(2) keywordParam_clean by (intro conditionsOf_clean) auto
  show ?thesis using 1 2 3 4 by (auto simp: convertArgsToParams_def Let_def)
qed

lemma functionDefinition_clean:
  "noStatement left \<Longrightarrow> noStatement right \<Longrightarrow> noStatement (functionDefinition left right)"
  by (cases left) (auto intro: convertArgsToParams_clean)

lemma rawPatterns_clean:
  "noStatement right \<Longrightarrow> \<forall>e \<in> set (rawPatterns right). noStatement e"
  by (cases right rule: rawPatterns.cases) auto

lemma globalMetadata_clean:
  "noStatement right \<Longrightarrow> \<forall>kv \<in> set (globalMetadata right). noStatement (snd kv)"
  by (cases right rule: globalMetadata.cases) auto

lemma legacyParameters_clean:
  "noStatement l \<Longrightarrow> cleanParams (legacyParameters l)"
  by (cases l rule: legacyParameters.cases) (auto dest: nameOrValue_clean)

lemma patternOf_clean:
  "noStatement entry \<Longrightarrow> \<forall>p \<in> set (patternOf entry). cleanParams (fst p) \<and> noStatement (snd p)"
  by (cases entry) (auto intro: legacyParameters_clean)

lemma patternMatchingFunction_clean:
  assumes "noStatement left" and "noStatement right"
  shows "noStatement (patternMatchingFunction left right)"
proof -
  have p: "\<forall>p \<in> set (concat (map patternOf (rawPatterns right))).
             cleanParams (fst p) \<and> noStatement (snd p)"
    using rawPatterns_clean[OF assms(2)] patternOf_clean by auto
  show ?thesis
    using assms(1) p globalMetadata_clean[OF assms(2)]
    by (cases left) (auto intro: convertArgsToParams_clean)
qed

lemma userIdentifierParam_clean: "\<forall>p \<in> set (userIdentifierParam element). cleanParam p"
  by (cases element) auto

lemma arrowLambda_clean:
  assumes "noStatement left" and "noStatement right"
  shows "noStatement (arrowLambda left right)"
proof (cases left)
  case (Grouping e)
  with assms show ?thesis by (cases e) (auto dest: nameOrValue_clean)
next
  case (Tuple es)
  with assms userIdentifierParam_clean show ?thesis by auto
qed (use assms in auto)

lemma infixNode_clean:
  "noStatement left \<Longrightarrow> noStatement right \<Longrightarrow> noStatement (infixNode opr left right)"
  by (simp add: infixNode_def functionDefinition_clean patternMatchingFunction_clean
      arrowLambda_clean)

lemma parseInfix_clean:
  assumes "cleanParser pe" and "noStatement left"
    and "parseInfix pe fuel left info st = Inr (n, st')"
  shows "noStatement n"
proof (cases "tvalue (current st) = ''('' \<and> isIdentifierNode left")
  case True
  with assms(3) obtain pos kw st1 where
    a: "parseFunctionCallArgs pe fuel (advance st) = Inr ((pos, kw), st1)"
    and n: "n = FunctionCall left pos kw"
    by (auto simp: parseInfix_def Let_def split: sum.splits if_splits)
  from parseFunctionCallArgs_clean[OF assms(1) a] assms(2) n show ?thesis
    by (simp add: cleanCallArgs_def)
next
  case notCall: False
  show ?thesis
  proof (cases "tvalue (current st) = ''['' \<and> stype info = ''postfix''")
    case True
    with notCall assms(3) obtain right st1 where
      r: "pe 0 (advance st) = Inr (right, st1)" and n: "n = PropertyAccess left right"
      by (auto simp: parseInfix_def Let_def split: sum.splits if_splits)
    from cleanParserD[OF assms(1) r] assms(2) n show ?thesis by simp
  next
    case False
    with notCall assms(3) obtain right st1 where
      r: "pe (rightPrecedence info) (advance st) = Inr (right, st1)"
      and n: "n = infixNode (tvalue (current st)) left right"
      by (auto simp: parseInfix_def Let_def split: sum.splits if_splits)
    from infixNode_clean[OF assms(2) cleanParserD[OF assms(1) r]] n show ?thesis by simp
  qed
qed

lemma expressionLoop_clean:
  "cleanParser pe \<Longrightarrow> noStatement left \<Longrightarrow>
   expressionLoop lk pe fuel minPrec left st = Inr (n, st') \<Longrightarrow> noStatement n"
proof (induction fuel arbitrary: left st)
  case 0
  then show ?case by simp
next
  case (Suc fuel)
  from Suc.prems(3) have
    "n = left
     \<or> (\<exists>info left1 st1. parseInfix pe fuel left info st = Inr (left1, st1)
           \<and> expressionLoop lk pe fuel minPrec left1 st1 = Inr (n, st'))
     \<or> (\<exists>left1 st1. parseDerivative pe fuel left st = Inr (left1, st1)
           \<and> expressionLoop lk pe fuel minPrec left1 st1 = Inr (n, st'))"
    by (auto simp: Let_def split: if_splits sum.splits)
  then show ?case
    using Suc.IH[OF Suc.prems(1)] Suc.prems(1,2) parseInfix_clean parseDerivative_clean
    by blast
qed

lemma parseExpression_clean: "cleanParser (parseExpression lk fuel)"
proof (induction fuel)
  case 0
  show ?case by (simp add: cleanParser_def)
next
  case (Suc fuel)
  show ?case
    unfolding cleanParser_def
  proof (intro allI impI)
    fix minPrec st n st'
    assume "parseExpression lk (Suc fuel) minPrec st = Inr (n, st')"
    then obtain left st1 where
      p: "parsePrefix lk (parseExpression lk fuel) fuel st = Inr (left, st1)"
      and l: "expressionLoop lk (parseExpression lk fuel) fuel minPrec left st1 = Inr (n, st')"
      by (auto split: sum.splits)
    from expressionLoop_clean[OF Suc parsePrefix_clean[OF Suc p] l] show "noStatement n" .
  qed
qed

lemma parseStatement_clean:
  assumes "cleanParser pe" and "parseStatement pe st = Inr (Some s, st')"
  shows "topLevelNode s"
proof -
  from assms(2) have
    "(\<exists>v k. s = Comment v k)
     \<or> (\<exists>expr st1. pe 0 st = Inr (expr, st1) \<and> (s = Statement expr \<or> s = expr))"
    by (auto simp: parseStatement_def split: if_splits sum.splits)
  then show ?thesis
    using cleanParserD[OF assms(1)] noStatement_topLevel by fastforce
qed

lemma parseLoop_clean:
  "cleanParser pe \<Longrightarrow> \<forall>s \<in> set statements. topLevelNode s \<Longrightarrow>
   parseLoop pe fuel statements st = Inr (statements', st') \<Longrightarrow>
     \<forall>s \<in> set statements'. topLevelNode s"
proof (induction fuel arbitrary: statements st)
  case 0
  then show ?case by simp
next
  case (Suc fuel)
  show ?case
  proof (cases "ttype (current st) = TEnd")
    case True
    with Suc.prems show ?thesis by auto
  next
    case notEnd: False
    show ?thesis
    proof (cases "isCommentToken (current st)")
      case True
      let ?c = "Comment (tvalue (current st)) (tkind (current st))"
      from notEnd True Suc.prems(3) have
        l: "parseLoop pe fuel (statements @ [?c]) (advance st) = Inr (statements', st')" by simp
      have "\<forall>s \<in> set (statements @ [?c]). topLevelNode s" using Suc.prems(2) by simp
      from Suc.IH[OF Suc.prems(1) this l] show ?thesis .
    next
      case False
      with notEnd Suc.prems(3) obtain stmt st1 where
        p: "parseStatement pe st = Inr (stmt, st1)"
        and l: "parseLoop pe fuel (case stmt of None \<Rightarrow> statements | Some s \<Rightarrow> statements @ [s]) st1
                 = Inr (statements', st')"
        by (auto split: sum.splits)
      have "\<forall>s \<in> set (case stmt of None \<Rightarrow> statements | Some s \<Rightarrow> statements @ [s]). topLevelNode s"
        using Suc.prems(2) p parseStatement_clean[OF Suc.prems(1)]
        by (cases stmt) auto
      from Suc.IH[OF Suc.prems(1) this l] show ?thesis .
    qed
  qed
qed

text \<open>
  C10. In the result of every successful parse, each top-level entry is either a
  \<open>Statement\<close> around a node in which no \<open>Statement\<close> occurs, or a node in which no
  \<open>Statement\<close> occurs: \<^verbatim>\<open>parseExpression\<close> never returns a node with a \<open>Statement\<close>
  in it, and \<^verbatim>\<open>parseStatement\<close> wraps its expression only when a \<^verbatim>\<open>;\<close> follows it.
  In particular the statements of a \<open>CodeBlock\<close>, at any depth, are bare expression
  nodes.
\<close>

theorem statements_only_at_top_level:
  assumes "parse lk fuel toks = Inr statements"
  shows "(\<forall>s \<in> set statements. topLevelNode s)
    \<and> (\<forall>minPrec st n st'. parseExpression lk fuel minPrec st = Inr (n, st') \<longrightarrow> noStatement n)
    \<and> (\<forall>st e st'. parseStatement (parseExpression lk fuel) st = Inr (Some (Statement e), st') \<longrightarrow>
          (\<exists>st1. parseExpression lk fuel 0 st = Inr (e, st1) \<and> tvalue (current st1) = '';''
                 \<and> st' = advance st1))
    \<and> (\<forall>es. noStatement (CodeBlock es) \<longrightarrow> (\<forall>e \<in> set es. noStatement e \<and> (\<forall>x. e \<noteq> Statement x)))"
proof -
  from assms obtain st where
    l: "parseLoop (parseExpression lk fuel) fuel [] (initParser toks) = Inr (statements, st)"
    by (auto simp: parse_def split: sum.splits)
  have 1: "\<forall>s \<in> set statements. topLevelNode s"
    using parseLoop_clean[OF parseExpression_clean _ l] by simp
  have 2: "\<forall>minPrec st n st'. parseExpression lk fuel minPrec st = Inr (n, st') \<longrightarrow> noStatement n"
    using parseExpression_clean[of lk fuel] by (simp add: cleanParser_def)
  have 3: "\<exists>st1. parseExpression lk fuel 0 st = Inr (e, st1) \<and> tvalue (current st1) = '';''
                 \<and> st' = advance st1"
    if p: "parseStatement (parseExpression lk fuel) st = Inr (Some (Statement e), st')" for st e st'
  proof -
    from p have
      "(\<exists>st1. parseExpression lk fuel 0 st = Inr (e, st1) \<and> tvalue (current st1) = '';''
                 \<and> st' = advance st1)
       \<or> parseExpression lk fuel 0 st = Inr (Statement e, st')"
      by (auto simp: parseStatement_def split: if_splits sum.splits)
    with 2 show ?thesis by fastforce
  qed
  have 4: "\<forall>es. noStatement (CodeBlock es) \<longrightarrow> (\<forall>e \<in> set es. noStatement e \<and> (\<forall>x. e \<noteq> Statement x))"
    by auto
  show ?thesis using 1 2 3 4 by blast
qed

theorem statements_only_at_top_level_witness:
  "parse noSystemSymbols 6 codeBlockExample
     = Inr [Statement (CodeBlock [BinaryOperation '':='' (UserIdentifier ''a'')
                                    (CodeBlock [Number ''3'', UserIdentifier ''b'']),
                                  UserIdentifier ''c''])]
   \<and> topLevelNode (Statement (CodeBlock [BinaryOperation '':='' (UserIdentifier ''a'')
                                    (CodeBlock [Number ''3'', UserIdentifier ''b'']),
                                  UserIdentifier ''c'']))"
proof -
  have p: "parse noSystemSymbols 6 codeBlockExample
     = Inr [Statement (CodeBlock [BinaryOperation '':='' (UserIdentifier ''a'')
                                    (CodeBlock [Number ''3'', UserIdentifier ''b'']),
                                  UserIdentifier ''c''])]"
    by code_simp
  from statements_only_at_top_level[OF p] p show ?thesis by simp
qed


section \<open>C6: the header colon of an embedded-language string\<close>

lemma parenBalance_Cons:
  "parenBalance (ch # s) =
     (if ch = CHR ''('' then 1 else if ch = CHR '')'' then -1 else 0) + parenBalance s"
  by (simp add: parenBalance_def)

lemma matchParen_balanced:
  "0 \<le> i \<Longrightarrow> matchParen xs i c \<noteq> -1 \<Longrightarrow>
     (\<exists>k < length xs. matchParen xs i c = i + int k \<and> xs ! k = CHR '')''
        \<and> c + parenBalance (take (Suc k) xs) = 0
        \<and> (\<forall>j < k. xs ! j = CHR '')'' \<longrightarrow> c + parenBalance (take (Suc j) xs) \<noteq> 0))"
proof (induction xs i c rule: matchParen.induct)
  case (1 i parenCount)
  then show ?case by simp
next
  case (2 ch rest i parenCount)
  let ?c' = "parenCount + (if ch = CHR ''('' then 1 else if ch = CHR '')'' then -1 else 0)"
  show ?case
  proof (cases "ch = CHR '')'' \<and> parenCount - 1 = 0")
    case True
    then show ?thesis by (auto simp: parenBalance_def intro!: exI[of _ 0])
  next
    case False
    then have rec: "matchParen (ch # rest) i parenCount = matchParen rest (i + 1) ?c'"
      by auto
    with "2.prems" have ne: "matchParen rest (i + 1) ?c' \<noteq> -1" by simp
    have "\<exists>k < length rest. matchParen rest (i + 1) ?c' = i + 1 + int k \<and> rest ! k = CHR '')''
        \<and> ?c' + parenBalance (take (Suc k) rest) = 0
        \<and> (\<forall>j < k. rest ! j = CHR '')'' \<longrightarrow> ?c' + parenBalance (take (Suc j) rest) \<noteq> 0)"
    proof (cases "ch = CHR ''(''")
      case True
      with "2.IH"(1)[OF True] "2.prems"(1) ne show ?thesis by simp
    next
      case notOpen: False
      show ?thesis
      proof (cases "ch = CHR '')''")
        case True
        with False have "parenCount - 1 \<noteq> 0" by simp
        from "2.IH"(2)[OF notOpen True this] "2.prems"(1) ne True notOpen show ?thesis by simp
      next
        case False
        with "2.IH"(3)[OF notOpen False] "2.prems"(1) ne notOpen show ?thesis by simp
      qed
    qed
    then obtain k where k: "k < length rest" "matchParen rest (i + 1) ?c' = i + 1 + int k"
      "rest ! k = CHR '')''" "?c' + parenBalance (take (Suc k) rest) = 0"
      "\<forall>j < k. rest ! j = CHR '')'' \<longrightarrow> ?c' + parenBalance (take (Suc j) rest) \<noteq> 0"
      by blast
    have b: "parenCount + parenBalance (take (Suc (Suc j)) (ch # rest))
               = ?c' + parenBalance (take (Suc j) rest)" for j
      by (simp add: parenBalance_Cons)
    have first: "parenCount + parenBalance (take (Suc 0) (ch # rest)) = ?c'"
      by (simp add: parenBalance_def)
    have "\<forall>j < Suc k. (ch # rest) ! j = CHR '')'' \<longrightarrow>
            parenCount + parenBalance (take (Suc j) (ch # rest)) \<noteq> 0"
    proof (intro allI impI)
      fix j assume j: "j < Suc k" and cl: "(ch # rest) ! j = CHR '')''"
      show "parenCount + parenBalance (take (Suc j) (ch # rest)) \<noteq> 0"
      proof (cases j)
        case 0
        with cl have "ch = CHR '')''" by simp
        with False have "parenCount - 1 \<noteq> 0" by simp
        with 0 \<open>ch = CHR '')''\<close> show ?thesis by (simp add: parenBalance_def)
      next
        case (Suc j')
        with j cl k(5) have "?c' + parenBalance (take (Suc j') rest) \<noteq> 0" by simp
        with Suc b[of j'] show ?thesis by simp
      qed
    qed
    with k rec b[of k] show ?thesis
      by (intro exI[of _ "Suc k"]) simp
  qed
qed

lemma findParenEnd_matching:
  assumes "indexOf content CHR ''('' = s" and "s \<noteq> -1"
    and "findParenEnd content s = e" and "e \<noteq> -1"
  shows "s < e \<and> e < int (length content) \<and> content ! nat s = CHR ''(''
     \<and> content ! nat e = CHR '')''
     \<and> parenBalance (take (nat (e - s) + 1) (drop (nat s) content)) = 0
     \<and> (\<forall>j. s \<le> j \<and> j < e \<and> content ! nat j = CHR '')'' \<longrightarrow>
           parenBalance (take (nat (j - s) + 1) (drop (nat s) content)) \<noteq> 0)"
proof -
  from assms(1,2) indexOf_range[of content "CHR ''(''"] have s0: "0 \<le> s" and sL: "s < int (length content)"
    by auto
  from indexOf_first[of content "CHR ''(''"] assms(1,2) have opn: "content ! nat s = CHR ''(''" by simp
  let ?xs = "drop (nat s) content"
  have m: "matchParen ?xs s 0 = e" using assms(3) s0 by (simp add: findParenEnd_def sliceFrom_nonneg)
  from matchParen_balanced[OF s0, of ?xs 0] m assms(4) obtain k where
    k: "k < length ?xs" "e = s + int k" "?xs ! k = CHR '')''"
       "parenBalance (take (Suc k) ?xs) = 0"
       "\<forall>j < k. ?xs ! j = CHR '')'' \<longrightarrow> parenBalance (take (Suc j) ?xs) \<noteq> 0"
    by auto
  have hd: "?xs ! 0 = CHR ''(''" using opn sL s0 by simp
  have kpos: "0 < k" using k(3) hd by (cases k) auto
  have ek: "nat (e - s) = k" using k(2) by simp
  have ne: "nat e = nat s + k" using k(2) s0 by (simp add: nat_add_distrib)
  have 1: "content ! nat e = CHR '')''" using k(1,3) ne by simp
  have 2: "parenBalance (take (nat (j - s) + 1) ?xs) \<noteq> 0"
    if "s \<le> j" "j < e" "content ! nat j = CHR '')''" for j
  proof -
    have jk: "nat (j - s) < k" using that k(2) by simp
    have "nat j = nat s + nat (j - s)" using that s0 by (simp add: nat_add_distrib[symmetric])
    with that(3) k(1) jk have "?xs ! nat (j - s) = CHR '')''" by simp
    with k(5) jk show ?thesis by simp
  qed
  show ?thesis using k(1,2,4) kpos opn 1 2 ek by auto
qed

lemma headerColonIndex_after_parens:
  assumes ps: "indexOf content CHR ''('' \<noteq> -1"
    and pe: "findParenEnd content (indexOf content CHR ''('') = e" "e \<noteq> -1"
    and col: "includesChar (sliceFrom content (e + 1)) CHR '':''"
  shows "e < headerColonIndex content \<and> headerColonIndex content < int (length content)
     \<and> content ! nat (headerColonIndex content) = CHR '':''
     \<and> (\<forall>j. e < j \<and> j < headerColonIndex content \<longrightarrow> content ! nat j \<noteq> CHR '':'')"
proof -
  define rest where "rest = sliceFrom content (e + 1)"
  define c where "c = indexOf rest CHR '':''"
  let ?s = "indexOf content CHR ''(''"
  from ps indexOf_range[of content "CHR ''(''"] have s0: "0 \<le> ?s" by auto
  from findParenEnd_range[OF s0, of content] pe s0
  have e0: "0 \<le> e" and eL: "e < int (length content)" by auto
  have rest: "rest = drop (nat e + 1) content"
    using e0 by (simp add: rest_def sliceFrom_nonneg nat_add_distrib)
  from col have cne: "c \<noteq> -1" by (simp add: c_def rest_def indexOf_absent includesChar_def)
  with indexOf_range[of rest "CHR '':''"] have c0: "0 \<le> c" and cL: "c < int (length rest)"
    by (auto simp: c_def)
  have k: "headerColonIndex content = e + 1 + c"
    using ps pe cne c0 e0 by (auto simp: headerColonIndex_def Let_def c_def rest_def)
  have nk: "nat (e + 1 + c) = nat e + 1 + nat c" using e0 c0 by (simp add: nat_add_distrib)
  from indexOf_first[of rest "CHR '':''"] cne have at: "rest ! nat c = CHR '':''"
    and before: "\<And>j. j < nat c \<Longrightarrow> rest ! j \<noteq> CHR '':''" by (auto simp: c_def)
  have len: "nat e + 1 + nat c < length content" using cL c0 by (simp add: rest)
  have "content ! (nat e + 1 + nat c) = CHR '':''" using at len by (simp add: rest)
  then have 1: "content ! nat (e + 1 + c) = CHR '':''" by (metis nk)
  have 2: "content ! nat j \<noteq> CHR '':''" if "e < j" "j < e + 1 + c" for j
  proof -
    have j: "nat j = nat e + 1 + nat (j - e - 1)" using that e0 by (simp add: nat_add_distrib nat_diff_distrib)
    have lt: "nat (j - e - 1) < nat c" using that c0 by simp
    have "nat e + 1 + nat (j - e - 1) < length content" using lt len by linarith
    with before[OF lt] have "content ! (nat e + 1 + nat (j - e - 1)) \<noteq> CHR '':''" by (simp add: rest)
    then show ?thesis by (metis j)
  qed
  have 3: "e + 1 + c < int (length content)" using len nk e0 c0 by linarith
  show ?thesis unfolding k using 1 2 3 c0 by auto
qed

lemma headerColonIndex_first_colon:
  assumes "indexOf content CHR ''('' = -1 \<or> findParenEnd content (indexOf content CHR ''('') = -1
      \<or> \<not> includesChar (sliceFrom content (findParenEnd content (indexOf content CHR ''('') + 1)) CHR '':''"
  shows "headerColonIndex content = indexOf content CHR '':''"
  using assms by (auto simp: headerColonIndex_def Let_def includesChar_def indexOf_absent)


text \<open>
  C6, as the code has it. For a content that contains a colon and does not begin with one,
  the header colon \<open>k\<close> is a colon of the content. If the content contains a \<open>(\<close>
  anywhere, the first one has a matching \<open>)\<close> and a colon follows that \<open>)\<close>, then
  \<open>k\<close> is the first colon after the matching \<open>)\<close>; otherwise it is the first colon of
  the content. The header is the content before \<open>k\<close>, trimmed, and the body is the
  content after \<open>k\<close>, unchanged. The matching \<open>)\<close> that \<open>findParenEnd\<close> returns is
  the first \<open>)\<close> up to which the content from that \<open>(\<close> on is balanced
  (\<open>findParenEnd_matching\<close>).
\<close>

theorem header_colon_location:
  assumes "indexOf content CHR '':'' \<noteq> -1" and "\<not> startsWith content CHR '':''"
  shows "(let k = headerColonIndex content;
              parenStart = indexOf content CHR ''('';
              parenEnd = findParenEnd content parenStart
          in 0 \<le> k \<and> k < int (length content) \<and> content ! nat k = CHR '':''
             \<and> (if parenStart \<noteq> -1 \<and> parenEnd \<noteq> -1
                      \<and> includesChar (sliceFrom content (parenEnd + 1)) CHR '':''
                 then parenStart \<le> parenEnd \<and> parenEnd < k
                      \<and> (\<forall>j. parenEnd < j \<and> j < k \<longrightarrow> content ! nat j \<noteq> CHR '':'')
                 else (\<forall>j. 0 \<le> j \<and> j < k \<longrightarrow> content ! nat j \<noteq> CHR '':''))
             \<and> splitHeaderBody content = (trim (take (nat k) content), drop (nat k + 1) content))"
proof -
  let ?k = "headerColonIndex content"
  let ?s = "indexOf content CHR ''(''"
  let ?e = "findParenEnd content ?s"
  let ?A = "?s \<noteq> -1 \<and> ?e \<noteq> -1 \<and> includesChar (sliceFrom content (?e + 1)) CHR '':''"
  have loc: "0 \<le> ?k \<and> ?k < int (length content) \<and> content ! nat ?k = CHR '':''
     \<and> (if ?A then ?s \<le> ?e \<and> ?e < ?k \<and> (\<forall>j. ?e < j \<and> j < ?k \<longrightarrow> content ! nat j \<noteq> CHR '':'')
         else (\<forall>j. 0 \<le> j \<and> j < ?k \<longrightarrow> content ! nat j \<noteq> CHR '':''))"
  proof (cases ?A)
    case True
    then have s0: "0 \<le> ?s" using indexOf_range[of content "CHR ''(''"] by auto
    from findParenEnd_range[OF s0, of content] True have "?s \<le> ?e" by auto
    with headerColonIndex_after_parens[of content ?e] True s0 show ?thesis by auto
  next
    case False
    then have k: "?k = indexOf content CHR '':''" by (intro headerColonIndex_first_colon) auto
    from indexOf_range[of content "CHR '':''"] assms(1)
    have r: "0 \<le> indexOf content CHR '':''" "indexOf content CHR '':'' < int (length content)" by auto
    have "content ! nat j \<noteq> CHR '':''" if "0 \<le> j" "j < indexOf content CHR '':''" for j
      using indexOf_first[OF assms(1)] that by (auto simp: nat_less_iff)
    with indexOf_first[OF assms(1)] r False show ?thesis unfolding k by auto
  qed
  then have k0: "0 \<le> ?k" by simp
  have "splitHeaderBody content = (trim (take (nat ?k) content), drop (nat ?k + 1) content)"
    using k0 by (simp add: splitHeaderBody_def Let_def slice_prefix sliceFrom_nonneg nat_add_distrib)
  with loc show ?thesis by (simp add: Let_def)
qed

theorem header_colon_location_witness: "headerColonIndex ''JS(a, b: string, c): a + b'' = 19
   \<and> splitHeaderBody ''JS(a, b: string, c): a + b'' = (''JS(a, b: string, c)'', '' a + b'')"
  using header_colon_location[of "''JS(a, b: string, c): a + b''"]
  by (simp add: headerColonIndex_def findParenEnd_def sliceFrom_def sliceIndex_def startsWith_def
      Let_def trim_def isWhiteSpace_def)


text \<open>
  C6 as stated fails: it lets a parenthesis count only when the content begins with it.
  In \<^verbatim>\<open>P(a:b):c\<close> the code takes the colon after the parenthesis (index 6), the
  stated rule takes the first colon (index 3).
\<close>

theorem header_colon_counterexample: "indexOf ''P(a:b):c'' CHR '':'' \<noteq> -1 \<and> \<not> startsWith ''P(a:b):c'' CHR '':''
   \<and> headerColonIndex ''P(a:b):c'' = 6 \<and> spec_headerColonIndex ''P(a:b):c'' = 3"
  by (simp add: headerColonIndex_def spec_headerColonIndex_def findParenEnd_def sliceFrom_def
      sliceIndex_def startsWith_def Let_def)

section \<open>C8: a second parenthetical group in the header\<close>

lemma parseHeader_never_MultipleGroups: "parseHeader header \<noteq> Inl MultipleGroups"
proof -
  have "\<not> includesChar (sliceFrom header (int (length header) - 1 + 1)) CHR ''(''"
    by (simp add: sliceFrom_def sliceIndex_def includesChar_def)
  then show ?thesis by (auto simp: parseHeader_def Let_def)
qed


text \<open>
  C8, as the code has it. A header whose first \<open>(\<close> has a matching \<open>)\<close> that is
  followed, later in the header, by another \<open>(\<close> is rejected, and the error is the one
  for an invalid header format: the matching \<open>)\<close> is then not the last character, and
  that check comes first. The check for several parenthetical groups is never reached
  (\<open>parseHeader_never_MultipleGroups\<close>).
\<close>

theorem header_second_group_invalid_format:
  assumes "indexOf header CHR ''('' = s" and "s \<noteq> -1"
    and "findParenEnd header s = e" and "e \<noteq> -1"
    and "includesChar (sliceFrom header (e + 1)) CHR ''(''"
  shows "parseHeader header = Inl InvalidHeaderFormat
    \<and> (\<forall>h. parseHeader h \<noteq> Inl MultipleGroups)"
proof -
  have "e \<noteq> int (length header) - 1"
  proof
    assume "e = int (length header) - 1"
    then have "sliceFrom header (e + 1) = []" by (simp add: sliceFrom_def sliceIndex_def)
    with assms(5) show False by (simp add: includesChar_def)
  qed
  with assms(1-4) have "parseHeader header = Inl InvalidHeaderFormat"
    by (simp add: parseHeader_def Let_def)
  with parseHeader_never_MultipleGroups show ?thesis by simp
qed

theorem header_second_group_invalid_format_witness: "parseHeader ''P(x)(y)'' = Inl InvalidHeaderFormat"
  using header_second_group_invalid_format[of "''P(x)(y)''" 1 3]
  by (simp add: findParenEnd_def sliceFrom_def sliceIndex_def includesChar_def)


text \<open>
  C8 as stated fails: the header of the test \<^verbatim>\<open>malformed parentheses throws error\<close>
  has a second group and is not answered with the error for several groups.
\<close>

theorem header_second_group_counterexample: "indexOf ''Function(a, b)(extra)'' CHR ''('' = 8
  \<and> findParenEnd ''Function(a, b)(extra)'' 8 = 13
  \<and> includesChar (sliceFrom ''Function(a, b)(extra)'' (13 + 1)) CHR ''(''
  \<and> parseHeader ''Function(a, b)(extra)'' \<noteq> Inl MultipleGroups"
  by (simp add: findParenEnd_def sliceFrom_def sliceIndex_def includesChar_def parseHeader_def lastIndexOf_def)


end
